theory Spec2Isabelle
  imports Complex_Main "HOL-Library.Log_Nat"
begin

section \<open>Remote backend: geometries, images and collections\<close>

text \<open>
  The program is a script of calls into a remote raster backend. A raster band is
  modelled by its per-pixel values over an arbitrary pixel type \<open>'p\<close>, an image by the
  list of its named bands in band order. Python floats and the backend's doubles are
  modelled as exact reals, except in the two conversions between map pixels and
  coordinates, which round as doubles. Pixel masks are not modelled: every band has a
  value at every pixel.
\<close>

datatype geometry =
    Point real real
  | Buffer geometry real
  | Bounds geometry

type_synonym 'p band = "'p \<Rightarrow> real"
type_synonym 'p image = "(string \<times> 'p band) list"
type_synonym date = "nat \<times> nat \<times> nat"

record 'p scene =
  time_start :: date
  footprint :: "'p set"
  properties :: "string \<rightharpoonup> real"
  bands :: "'p image"

text \<open>
  What the backend supplies and the program only consumes: the named image collections,
  the named image assets, the pixels a geometry covers, clipping, and the terrain
  algorithm.
\<close>

record 'p backend =
  ImageCollection :: "string \<Rightarrow> 'p scene list"
  Image_asset :: "string \<Rightarrow> 'p image"
  extent :: "geometry \<Rightarrow> 'p set"
  clip :: "'p image \<Rightarrow> geometry \<Rightarrow> 'p image"
  Terrain :: "'p image \<Rightarrow> 'p image"

subsection \<open>Image operations\<close>

definition bandNames :: "'p image \<Rightarrow> string list" where
  "bandNames img = map fst img"

definition constant_image :: "real \<Rightarrow> 'p image" where
  "constant_image c = [(''constant'', \<lambda>_. c)]"

text \<open>
  \<open>rename\<close> with one name gives that name to the first band. The backend rejects a
  rename whose name count differs from the band count; every image the program renames
  has one band for single-band sources, and the model keeps the first band.
\<close>

definition rename :: "'p image \<Rightarrow> string \<Rightarrow> 'p image" where
  "rename img name = map2 (\<lambda>n (_, b). (n, b)) [name] img"

definition select :: "'p image \<Rightarrow> string \<Rightarrow> 'p image" where
  "select img name = filter (\<lambda>(n, _). n = name) img"

definition map_bands :: "(real \<Rightarrow> real) \<Rightarrow> 'p image \<Rightarrow> 'p image" where
  "map_bands f img = map (\<lambda>(n, b). (n, \<lambda>p. f (b p))) img"

definition multiply :: "'p image \<Rightarrow> real \<Rightarrow> 'p image" where
  "multiply img c = map_bands (\<lambda>v. v * c) img"

definition subtract :: "'p image \<Rightarrow> real \<Rightarrow> 'p image" where
  "subtract img c = map_bands (\<lambda>v. v - c) img"

text \<open>Band-wise sum of two images, matched by position, named after the first.\<close>

definition add :: "'p image \<Rightarrow> 'p image \<Rightarrow> 'p image" where
  "add a b = map2 (\<lambda>(n, f) (_, g). (n, \<lambda>p. f p + g p)) a b"

definition unitScale :: "'p image \<Rightarrow> real \<Rightarrow> real \<Rightarrow> 'p image" where
  "unitScale img low high = map_bands (\<lambda>v. (v - low) / (high - low)) img"

definition clamp :: "'p image \<Rightarrow> real \<Rightarrow> real \<Rightarrow> 'p image" where
  "clamp img low high = map_bands (\<lambda>v. max low (min high v)) img"

text \<open>
  \<open>normalizedDifference [a, b]\<close> is the one-band image \<open>(a - b) / (a + b)\<close> named
  \<open>nd\<close>; an image lacking one of the two bands yields no band here (the backend reports
  an error when the image is evaluated).
\<close>

definition normalizedDifference :: "'p image \<Rightarrow> string \<Rightarrow> string \<Rightarrow> 'p image" where
  "normalizedDifference img a b =
     (case (map_of img a, map_of img b) of
        (Some f, Some g) \<Rightarrow> [(''nd'', \<lambda>p. (f p - g p) / (f p + g p))]
      | _ \<Rightarrow> [])"

text \<open>The conditional of the backend: one condition, two alternatives.\<close>

definition Algorithms_If :: "bool \<Rightarrow> 'a \<Rightarrow> 'a \<Rightarrow> 'a" where
  "Algorithms_If c t e = (if c then t else e)"

text \<open>The value of band \<open>name\<close> of an image at a pixel, if the image has that band.\<close>

definition band_value :: "'p image \<Rightarrow> string \<Rightarrow> 'p \<Rightarrow> real option" where
  "band_value img name p = map_option (\<lambda>b. b p) (map_of img name)"

subsection \<open>Collection filters and reducers\<close>

fun date_less :: "date \<Rightarrow> date \<Rightarrow> bool" where
  "date_less (y1, m1, d1) (y2, m2, d2) =
     (y1 < y2 \<or> (y1 = y2 \<and> (m1 < m2 \<or> (m1 = m2 \<and> d1 < d2))))"

definition filterBounds :: "'p backend \<Rightarrow> 'p scene list \<Rightarrow> geometry \<Rightarrow> 'p scene list" where
  "filterBounds be col g = filter (\<lambda>s. footprint s \<inter> extent be g \<noteq> {}) col"

text \<open>\<open>filterDate start end\<close> keeps the scenes with \<open>start \<le> time < end\<close>.\<close>

definition filterDate :: "'p scene list \<Rightarrow> date \<Rightarrow> date \<Rightarrow> 'p scene list" where
  "filterDate col start end =
     filter (\<lambda>s. \<not> date_less (time_start s) start \<and> date_less (time_start s) end) col"

definition filter_lt :: "'p scene list \<Rightarrow> string \<Rightarrow> real \<Rightarrow> 'p scene list" where
  "filter_lt col prop v =
     filter (\<lambda>s. case properties s prop of Some x \<Rightarrow> x < v | None \<Rightarrow> False) col"

definition select_col :: "'p scene list \<Rightarrow> string \<Rightarrow> 'p scene list" where
  "select_col col name = map (\<lambda>s. s\<lparr>bands := select (bands s) name\<rparr>) col"

definition band_samples :: "'p scene list \<Rightarrow> string \<Rightarrow> 'p \<Rightarrow> real list" where
  "band_samples col name p =
     List.map_filter (\<lambda>s. map_option (\<lambda>b. b p) (map_of (bands s) name)) col"

text \<open>
  Reducing a collection gives one band per band of its first scene, each pixel reduced
  over the scenes; the empty collection reduces to an image with no bands.
\<close>

definition reduce :: "(real list \<Rightarrow> real) \<Rightarrow> 'p scene list \<Rightarrow> 'p image" where
  "reduce r col =
     (case col of
        [] \<Rightarrow> []
      | s # _ \<Rightarrow> map (\<lambda>n. (n, \<lambda>p. r (band_samples col n p))) (bandNames (bands s)))"

definition mean_of :: "real list \<Rightarrow> real" where
  "mean_of xs = sum_list xs / real (length xs)"

definition median_of :: "real list \<Rightarrow> real" where
  "median_of xs =
     (let s = sort xs; n = length s in
      if odd n then s ! (n div 2) else (s ! (n div 2 - 1) + s ! (n div 2)) / 2)"

definition median :: "'p scene list \<Rightarrow> 'p image" where
  "median col = reduce median_of col"

definition mean :: "'p scene list \<Rightarrow> 'p image" where
  "mean col = reduce mean_of col"

definition sum_col :: "'p scene list \<Rightarrow> 'p image" where
  "sum_col col = reduce sum_list col"

section \<open>Fire risk analysis: the layers\<close>

text \<open>
  The local variables of \<open>run_fire_risk_analysis\<close>, each as a function of the backend and
  of the study area.
\<close>

definition area :: "real \<Rightarrow> real \<Rightarrow> geometry" where
  "area longitude latitude = Buffer (Point longitude latitude) 30000"

definition start :: date where "start = (2023, 7, 1)"
definition end_date :: date where "end_date = (2023, 8, 31)"

definition s2 :: "'p backend \<Rightarrow> geometry \<Rightarrow> 'p scene list" where
  "s2 be a =
     filter_lt (filterDate (filterBounds be (ImageCollection be ''COPERNICUS/S2_SR'') a)
                  start end_date)
       ''CLOUDY_PIXEL_PERCENTAGE'' 10"

definition s2_median :: "'p backend \<Rightarrow> geometry \<Rightarrow> 'p image" where
  "s2_median be a = median (s2 be a)"

definition ndvi :: "'p backend \<Rightarrow> geometry \<Rightarrow> 'p image" where
  "ndvi be a =
     Algorithms_If (0 < length (bandNames (s2_median be a)))
       (rename (normalizedDifference (s2_median be a) ''B8'' ''B4'') ''NDVI'')
       (rename (constant_image 0) ''NDVI'')"

definition lstCol :: "'p backend \<Rightarrow> geometry \<Rightarrow> 'p scene list" where
  "lstCol be a =
     select_col (filterDate (filterBounds be (ImageCollection be ''MODIS/006/MOD11A2'') a)
                   start end_date)
       ''LST_Day_1km''"

definition lstImage :: "'p backend \<Rightarrow> geometry \<Rightarrow> 'p image" where
  "lstImage be a = mean (lstCol be a)"

definition lst :: "'p backend \<Rightarrow> geometry \<Rightarrow> 'p image" where
  "lst be a =
     Algorithms_If (0 < length (bandNames (lstImage be a)))
       (rename (subtract (multiply (lstImage be a) 0.02) 273.15) ''LST'')
       (rename (constant_image 25) ''LST'')"

definition chirpsCol :: "'p backend \<Rightarrow> geometry \<Rightarrow> 'p scene list" where
  "chirpsCol be a =
     filterDate (filterBounds be (ImageCollection be ''UCSB-CHG/CHIRPS/DAILY'') a)
       (2023, 6, 1) end_date"

definition precipImage :: "'p backend \<Rightarrow> geometry \<Rightarrow> 'p image" where
  "precipImage be a = sum_col (chirpsCol be a)"

definition precip :: "'p backend \<Rightarrow> geometry \<Rightarrow> 'p image" where
  "precip be a =
     Algorithms_If (0 < length (bandNames (precipImage be a)))
       (rename (precipImage be a) ''Precip'')
       (rename (constant_image 10) ''Precip'')"

definition dem :: "'p backend \<Rightarrow> geometry \<Rightarrow> 'p image" where
  "dem be a = clip be (Image_asset be ''USGS/SRTMGL1_003'') a"

definition terrain :: "'p backend \<Rightarrow> geometry \<Rightarrow> 'p image" where
  "terrain be a = Terrain be (dem be a)"

definition slope :: "'p backend \<Rightarrow> geometry \<Rightarrow> 'p image" where
  "slope be a = rename (select (terrain be a) ''slope'') ''Slope''"

definition aspect :: "'p backend \<Rightarrow> geometry \<Rightarrow> 'p image" where
  "aspect be a = rename (select (terrain be a) ''aspect'') ''Aspect''"

subsection \<open>Normalisation\<close>

definition ndvi_norm :: "'p backend \<Rightarrow> geometry \<Rightarrow> 'p image" where
  "ndvi_norm be a = clamp (unitScale (ndvi be a) 0 1) 0 1"

definition lst_norm :: "'p backend \<Rightarrow> geometry \<Rightarrow> 'p image" where
  "lst_norm be a = clamp (unitScale (lst be a) 20 45) 0 1"

definition slope_norm :: "'p backend \<Rightarrow> geometry \<Rightarrow> 'p image" where
  "slope_norm be a = clamp (unitScale (slope be a) 0 60) 0 1"

text \<open>The per-pixel expression \<open>cos((aspect - 180) * 3.1416 / 180)\<close>.\<close>

definition aspect_expression :: "real \<Rightarrow> real" where
  "aspect_expression v = cos ((v - 180) * 3.1416 / 180)"

definition aspect_south :: "'p backend \<Rightarrow> geometry \<Rightarrow> 'p image" where
  "aspect_south be a = rename (map_bands aspect_expression (aspect be a)) ''Aspect_Score''"

definition precip_norm :: "'p backend \<Rightarrow> geometry \<Rightarrow> 'p image" where
  "precip_norm be a = clamp (unitScale (precip be a) 0 150) 0 1"

subsection \<open>Fire risk index\<close>

definition risk_index :: "'p image \<Rightarrow> 'p image \<Rightarrow> 'p image \<Rightarrow> 'p image \<Rightarrow> 'p image \<Rightarrow> 'p image" where
  "risk_index lstn ndvin slopen aspects precipn =
     rename
       (add (add (add (add (multiply lstn 0.3) (multiply ndvin (- 0.3)))
                   (multiply slopen 0.15))
              (multiply aspects 0.15))
          (multiply precipn (- 0.1)))
       ''Fire_Risk''"

definition fireRisk :: "'p backend \<Rightarrow> geometry \<Rightarrow> 'p image" where
  "fireRisk be a =
     risk_index (lst_norm be a) (ndvi_norm be a) (slope_norm be a) (aspect_south be a)
       (precip_norm be a)"

section \<open>Export jobs and the local process\<close>

text \<open>
  The effects of the process are threaded through a world: the log of the external actions
  in the order they happen, the local directories created and the local files written.
  Console output, the opening of the backend session and the interactive sign-in to the
  storage service are not modelled.
\<close>

record 'p export_job =
  job_image :: "'p image"
  description :: string
  folder :: string
  fileNamePrefix :: string
  region :: geometry
  scale :: real
  maxPixels :: real

datatype 'p event =
    Export_Start "'p export_job"
  | Sleep nat
  | Get_Content_File string string

record 'p world =
  events :: "'p event list"
  dirs :: "string set"
  files :: "string \<rightharpoonup> string"

text \<open>\<open>export_layer\<close> is local to \<open>run_fire_risk_analysis\<close> and closes over the area.\<close>

definition export_layer :: "geometry \<Rightarrow> 'p image \<Rightarrow> string \<Rightarrow> 'p world \<Rightarrow> 'p world" where
  "export_layer a img name w =
     w\<lparr>events := events w @
        [Export_Start \<lparr>job_image = img, description = name,
           folder = ''EarthEnginefatemeh'', fileNamePrefix = name,
           region = Bounds a, scale = 30, maxPixels = 10 ^ 13\<rparr>]\<rparr>"

text \<open>
  \<open>str\<close> is Python's formatting of a float inside an f-string, taken as a parameter.
\<close>

definition run_fire_risk_analysis ::
  "'p backend \<Rightarrow> (real \<Rightarrow> string) \<Rightarrow> real \<Rightarrow> real \<Rightarrow> 'p world \<Rightarrow> 'p world" where
  "run_fire_risk_analysis be str longitude latitude w0 =
     (let a = area longitude latitude;
          w1 = export_layer a (ndvi be a) (''NDVI_'' @ str latitude @ ''_'' @ str longitude) w0;
          w2 = export_layer a (lst be a) (''LST_'' @ str latitude @ ''_'' @ str longitude) w1;
          w3 = export_layer a (precip be a) (''Precip_'' @ str latitude @ ''_'' @ str longitude) w2;
          w4 = export_layer a (slope be a) (''Slope_'' @ str latitude @ ''_'' @ str longitude) w3;
          w5 = export_layer a (aspect_south be a)
                 (''Aspect_Score_'' @ str latitude @ ''_'' @ str longitude) w4
      in export_layer a (fireRisk be a) (''Fire_Risk_'' @ str latitude @ ''_'' @ str longitude) w5)"

section \<open>Download from the storage backend\<close>

record drive_file =
  file_id :: string
  title :: string
  mimeType :: string
  parents :: "string list"
  trashed :: bool
  content :: string

type_synonym drive = "drive_file list"

datatype error = Exception string

definition folder_query :: "string \<Rightarrow> drive_file \<Rightarrow> bool" where
  "folder_query folder_name f \<longleftrightarrow>
     title f = folder_name \<and> mimeType f = ''application/vnd.google-apps.folder'' \<and> \<not> trashed f"

definition children_query :: "string \<Rightarrow> drive_file \<Rightarrow> bool" where
  "children_query folder_id f \<longleftrightarrow> folder_id \<in> set (parents f) \<and> \<not> trashed f"

definition ListFile :: "drive \<Rightarrow> (drive_file \<Rightarrow> bool) \<Rightarrow> drive_file list" where
  "ListFile drv q = filter q drv"

definition makedirs :: "string \<Rightarrow> 'p world \<Rightarrow> 'p world" where
  "makedirs path w = w\<lparr>dirs := insert path (dirs w)\<rparr>"

definition GetContentFile :: "drive_file \<Rightarrow> string \<Rightarrow> 'p world \<Rightarrow> 'p world" where
  "GetContentFile f path w =
     w\<lparr>events := events w @ [Get_Content_File (file_id f) path],
       files := (files w)(path \<mapsto> content f)\<rparr>"

text \<open>
  \<open>path_join\<close> is \<open>os.path.join\<close> of the platform, taken as a parameter. The exception is
  raised before any effect of the function, so the world at the raise is the one given.
\<close>

definition download_exports_from_drive ::
  "(string \<Rightarrow> string \<Rightarrow> string) \<Rightarrow> drive \<Rightarrow> 'p world \<Rightarrow> error + 'p world" where
  "download_exports_from_drive path_join drv w =
     (let folder_name = ''EarthEnginefatemeh'' in
      case ListFile drv (folder_query folder_name) of
        [] \<Rightarrow> Inl (Exception (''Folder '' @ [CHR 0x27] @ folder_name @ [CHR 0x27] @
                            '' not found in Drive''))
      | first # _ \<Rightarrow>
          let folder_id = file_id first;
              file_list = ListFile drv (children_query folder_id);
              download_path = ''downloads'';
              w1 = makedirs download_path w
          in Inr (fold (\<lambda>file. GetContentFile file (path_join download_path (title file)))
                    file_list w1))"

section \<open>Province selection on the map\<close>

definition PROVINCES :: "(string \<times> real \<times> real) list" where
  "PROVINCES =
    [(''Tehran'', 35.6892, 51.3890),
     (''Isfahan'', 32.6519, 51.6680),
     (''Fars'', 29.5893, 52.5311),
     (''Razavi Khorasan'', 36.3000, 59.6000),
     (''Mazandaran'', 36.5525, 53.0762),
     (''Kurdistan'', 34.7800, 46.5300),
     (''Khuzestan'', 31.9391, 48.6692),
     (''East Azerbaijan'', 38.0700, 46.2960),
     (''West Azerbaijan'', 37.5300, 45.0000),
     (''Ardabil'', 38.2500, 48.3000),
     (''Zanjan'', 36.6764, 48.4963),
     (''Qazvin'', 36.2700, 50.0000),
     (''Gilan'', 37.2800, 49.5832),
     (''Golestan'', 36.8400, 54.4300),
     (''Semnan'', 35.5700, 53.4000),
     (''Alborz'', 35.8400, 50.9400),
     (''Qom'', 34.6400, 50.8800),
     (''Markazi'', 34.1000, 49.7000),
     (''Hamedan'', 34.8000, 48.5000),
     (''Ilam'', 33.6300, 46.4200),
     (''Lorestan'', 33.5800, 48.3500),
     (''Chaharmahal and Bakhtiari'', 32.3200, 50.8600),
     (''Kohgiluyeh and Boyer-Ahmad'', 30.6500, 51.6000),
     (''Bushehr'', 28.9200, 50.8300),
     (''Hormozgan'', 27.2000, 56.3700),
     (''Sistan and Baluchestan'', 29.4900, 60.8500),
     (''Kerman'', 30.2839, 57.0834),
     (''Yazd'', 31.8974, 54.3569),
     (''South Khorasan'', 32.8700, 59.2200),
     (''North Khorasan'', 37.4700, 57.3300)]"

definition MIN_LAT :: real where "MIN_LAT = 25"
definition MAX_LAT :: real where "MAX_LAT = 39"
definition MIN_LON :: real where "MIN_LON = 44"
definition MAX_LON :: real where "MAX_LON = 63"
definition WIDTH :: real where "WIDTH = 800"
definition HEIGHT :: real where "HEIGHT = 1000"


subsection \<open>Double arithmetic\<close>

text \<open>
  The two map conversions end in \<open>int\<close>, which truncates, so the rounding of their float
  operations decides the result. There every operation is its exact result rounded to the
  nearest double, ties to the even significand. \<open>exponent r\<close> is the integer \<open>e\<close> with
  \<open>2 ^ e \<le> \<bar>r\<bar> < 2 ^ (e + 1)\<close>, and a double in that range is a multiple of
  \<open>2 ^ (e - 52)\<close>. The exponent range is not bounded: the values of the conversions are far
  from overflow and from the subnormal range. The integer constants convert to doubles
  exactly.
\<close>

definition exponent :: "real \<Rightarrow> int" where
  "exponent r =
     (let m = \<bar>r\<bar> in
      if 1 \<le> m then bitlen \<lfloor>m\<rfloor> - 1
      else (let s = 1 / m; k = bitlen \<lfloor>s\<rfloor> - 1 in
            if s = 2 powi k then - k else - k - 1))"

definition round_half_even :: "real \<Rightarrow> int" where
  "round_half_even t =
     (let f = \<lfloor>t\<rfloor>; d = t - of_int f in
      if d < 1 / 2 then f else if 1 / 2 < d then f + 1 else if even f then f else f + 1)"

definition to_double :: "real \<Rightarrow> real" where
  "to_double r =
     (if r = 0 then 0
      else (let ulp = 2 powi (exponent r - 52) in of_int (round_half_even (r / ulp)) * ulp))"


definition pixel_to_geo :: "int \<Rightarrow> int \<Rightarrow> real \<times> real" where
  "pixel_to_geo x y =
     (let lon = to_double
                  (to_double (to_double (real_of_int x / WIDTH) * (MAX_LON - MIN_LON)) +
                   MIN_LON);
          lat = to_double
                  (MAX_LAT -
                   to_double (to_double (real_of_int y / HEIGHT) * (MAX_LAT - MIN_LAT)))
      in (lat, lon))"

definition hypot :: "real \<Rightarrow> real \<Rightarrow> real" where
  "hypot a b = sqrt (a\<^sup>2 + b\<^sup>2)"

text \<open>
  The loop state is \<open>(nearest, min_dist)\<close>; \<open>min_dist = None\<close> stands for the initial
  \<open>float("inf")\<close>, below which every distance lies.
\<close>

definition less_min :: "real \<Rightarrow> real option \<Rightarrow> bool" where
  "less_min d m = (case m of None \<Rightarrow> True | Some v \<Rightarrow> d < v)"

definition nearest_step ::
  "real \<Rightarrow> real \<Rightarrow> string \<times> real \<times> real \<Rightarrow>
   (string \<times> real \<times> real) option \<times> real option \<Rightarrow>
   (string \<times> real \<times> real) option \<times> real option" where
  "nearest_step lat lon prov st =
     (case prov of (name, plat, plon) \<Rightarrow>
        (let dist = hypot (lat - plat) (lon - plon) in
         if less_min dist (snd st) then (Some (name, plat, plon), Some dist) else st))"

definition nearest_loop ::
  "real \<Rightarrow> real \<Rightarrow> (string \<times> real \<times> real) list \<Rightarrow> (string \<times> real \<times> real) option" where
  "nearest_loop lat lon provs = fst (fold (nearest_step lat lon) provs (None, None))"

definition sleep :: "nat \<Rightarrow> 'p world \<Rightarrow> 'p world" where
  "sleep secs w = w\<lparr>events := events w @ [Sleep secs]\<rparr>"

text \<open>The countdown \<open>for remaining in range(60, 0, -1): time.sleep(1)\<close>.\<close>

definition countdown :: "'p world \<Rightarrow> 'p world" where
  "countdown w = fold (\<lambda>remaining. sleep 1) (rev [1..<61]) w"

definition on_map_click ::
  "'p backend \<Rightarrow> (real \<Rightarrow> string) \<Rightarrow> (string \<Rightarrow> string \<Rightarrow> string) \<Rightarrow> drive \<Rightarrow>
   int \<Rightarrow> int \<Rightarrow> 'p world \<Rightarrow> error + 'p world" where
  "on_map_click be str path_join drv x y w =
     (case pixel_to_geo x y of (lat, lon) \<Rightarrow>
        (case nearest_loop lat lon PROVINCES of
           None \<Rightarrow> Inr w
         | Some (name, plat, plon) \<Rightarrow>
             download_exports_from_drive path_join drv
               (countdown (run_fire_risk_analysis be str plon plat w))))"

text \<open>
  The six export jobs of one run, in submission order: the list the event log of a run is
  compared with.
\<close>

definition export_jobs :: "'p backend \<Rightarrow> (real \<Rightarrow> string) \<Rightarrow> real \<Rightarrow> real \<Rightarrow> 'p export_job list" where
  "export_jobs be str longitude latitude =
     map (\<lambda>(img, name).
            \<lparr>job_image = img,
             description = name @ ''_'' @ str latitude @ ''_'' @ str longitude,
             folder = ''EarthEnginefatemeh'',
             fileNamePrefix = name @ ''_'' @ str latitude @ ''_'' @ str longitude,
             region = Bounds (Buffer (Point longitude latitude) 30000),
             scale = 30, maxPixels = 10 ^ 13\<rparr>)
       [(ndvi be (area longitude latitude), ''NDVI''),
        (lst be (area longitude latitude), ''LST''),
        (precip be (area longitude latitude), ''Precip''),
        (slope be (area longitude latitude), ''Slope''),
        (aspect_south be (area longitude latitude), ''Aspect_Score''),
        (fireRisk be (area longitude latitude), ''Fire_Risk'')]"

text \<open>The distance from a point to the centre of a province, as the loop computes it.\<close>

definition pdist :: "real \<Rightarrow> real \<Rightarrow> string \<times> real \<times> real \<Rightarrow> real" where
  "pdist lat lon prov = hypot (lat - fst (snd prov)) (lon - snd (snd prov))"

text \<open>
  Index \<open>i\<close> is the first minimiser of the distance over the list: no entry is nearer, and
  every earlier entry is strictly farther.
\<close>

definition first_min :: "real \<Rightarrow> real \<Rightarrow> (string \<times> real \<times> real) list \<Rightarrow> nat \<Rightarrow> bool" where
  "first_min lat lon ps i \<longleftrightarrow>
     i < length ps \<and> (\<forall>j < length ps. pdist lat lon (ps ! i) \<le> pdist lat lon (ps ! j)) \<and>
     (\<forall>j < i. pdist lat lon (ps ! i) < pdist lat lon (ps ! j))"

subsection \<open>Concrete inputs\<close>

text \<open>
  A storage listing with the output folder, two files inside it and one file elsewhere; a
  world in which one of the two files already exists locally; a path join.
\<close>

definition example_drive :: drive where
  "example_drive =
     [\<lparr>file_id = ''d1'', title = ''EarthEnginefatemeh'',
       mimeType = ''application/vnd.google-apps.folder'', parents = [''root''],
       trashed = False, content = ''''\<rparr>,
      \<lparr>file_id = ''f1'', title = ''NDVI_1_2.tif'', mimeType = ''image/tiff'',
       parents = [''d1''], trashed = False, content = ''aa''\<rparr>,
      \<lparr>file_id = ''f2'', title = ''old.tif'', mimeType = ''image/tiff'',
       parents = [''d1''], trashed = False, content = ''bb''\<rparr>,
      \<lparr>file_id = ''f3'', title = ''other.tif'', mimeType = ''image/tiff'',
       parents = [''root''], trashed = False, content = ''cc''\<rparr>]"

definition example_world :: "nat world" where
  "example_world = \<lparr>events = [], dirs = {}, files = [''downloads/old.tif'' \<mapsto> ''zz'']\<rparr>"

definition example_join :: "string \<Rightarrow> string \<Rightarrow> string" where
  "example_join a b = a @ ''/'' @ b"

text \<open>A float formatting, and a backend with no data at all.\<close>

definition example_str :: "real \<Rightarrow> string" where
  "example_str v = ''v''"

definition empty_backend :: "nat backend" where
  "empty_backend = \<lparr>ImageCollection = (\<lambda>name. []), Image_asset = (\<lambda>name. []),
     extent = (\<lambda>g. {}), clip = (\<lambda>img g. img), Terrain = (\<lambda>img. [])\<rparr>"

text \<open>
  A backend with data over the single pixel \<open>0\<close>. Of the four optical scenes the second is
  too cloudy; of the three temperature scenes the second lies on the end date, which the
  date filter excludes; of the four rainfall scenes the second misses the area and the
  third is too early. The retained scenes reduce to the parameters: median near-infrared
  \<open>b8\<close>, red \<open>b4\<close>, mean raw temperature \<open>raw\<close>, rainfall sum \<open>rain\<close>; the terrain has
  slope \<open>slp\<close> and aspect \<open>asp\<close>.
\<close>

definition example_backend :: "real \<Rightarrow> real \<Rightarrow> real \<Rightarrow> real \<Rightarrow> real \<Rightarrow> real \<Rightarrow> nat backend" where
  "example_backend b8 b4 raw rain slp asp =
     \<lparr>ImageCollection = (\<lambda>name.
        if name = ''COPERNICUS/S2_SR'' then
          [\<lparr>time_start = (2023, 7, 15), footprint = {0},
            properties = [''CLOUDY_PIXEL_PERCENTAGE'' \<mapsto> 5],
            bands = [(''B4'', \<lambda>p. b4), (''B8'', \<lambda>p. b8 + 1)]\<rparr>,
           \<lparr>time_start = (2023, 7, 16), footprint = {0},
            properties = [''CLOUDY_PIXEL_PERCENTAGE'' \<mapsto> 50],
            bands = [(''B4'', \<lambda>p. b4 + 7), (''B8'', \<lambda>p. b8 + 9)]\<rparr>,
           \<lparr>time_start = (2023, 7, 1), footprint = {0, 1},
            properties = [''CLOUDY_PIXEL_PERCENTAGE'' \<mapsto> 0],
            bands = [(''B4'', \<lambda>p. b4), (''B8'', \<lambda>p. b8 - 1)]\<rparr>,
           \<lparr>time_start = (2023, 8, 30), footprint = {0},
            properties = [''CLOUDY_PIXEL_PERCENTAGE'' \<mapsto> 9],
            bands = [(''B4'', \<lambda>p. b4), (''B8'', \<lambda>p. b8)]\<rparr>]
        else if name = ''MODIS/006/MOD11A2'' then
          [\<lparr>time_start = (2023, 7, 20), footprint = {0}, properties = Map.empty,
            bands = [(''LST_Day_1km'', \<lambda>p. raw - 100), (''QC_Day'', \<lambda>p. 0)]\<rparr>,
           \<lparr>time_start = (2023, 8, 31), footprint = {0}, properties = Map.empty,
            bands = [(''LST_Day_1km'', \<lambda>p. raw + 5000), (''QC_Day'', \<lambda>p. 0)]\<rparr>,
           \<lparr>time_start = (2023, 8, 5), footprint = {0}, properties = Map.empty,
            bands = [(''LST_Day_1km'', \<lambda>p. raw + 100), (''QC_Day'', \<lambda>p. 0)]\<rparr>]
        else if name = ''UCSB-CHG/CHIRPS/DAILY'' then
          [\<lparr>time_start = (2023, 6, 1), footprint = {0}, properties = Map.empty,
            bands = [(''precipitation'', \<lambda>p. rain - 2)]\<rparr>,
           \<lparr>time_start = (2023, 7, 10), footprint = {1}, properties = Map.empty,
            bands = [(''precipitation'', \<lambda>p. 40)]\<rparr>,
           \<lparr>time_start = (2023, 5, 31), footprint = {0}, properties = Map.empty,
            bands = [(''precipitation'', \<lambda>p. 30)]\<rparr>,
           \<lparr>time_start = (2023, 8, 1), footprint = {0}, properties = Map.empty,
            bands = [(''precipitation'', \<lambda>p. 2)]\<rparr>]
        else []),
      Image_asset = (\<lambda>name. [(''elevation'', \<lambda>p. 0)]),
      extent = (\<lambda>g. {0}),
      clip = (\<lambda>img g. img),
      Terrain = (\<lambda>img. img @ [(''slope'', \<lambda>p. slp), (''aspect'', \<lambda>p. asp)])\<rparr>"

section \<open>Properties of the export dispatcher\<close>

lemma events_export_layer:
  "events (export_layer a img name w) =
     events w @ [Export_Start \<lparr>job_image = img, description = name,
        folder = ''EarthEnginefatemeh'', fileNamePrefix = name,
        region = Bounds a, scale = 30, maxPixels = 10 ^ 13\<rparr>]"
  by (simp add: export_layer_def)

lemma rest_export_layer:
  "dirs (export_layer a img name w) = dirs w" "files (export_layer a img name w) = files w"
  by (simp_all add: export_layer_def)

lemma events_run:
  "events (run_fire_risk_analysis be str longitude latitude w) =
     events w @ map Export_Start (export_jobs be str longitude latitude)"
  by (simp add: run_fire_risk_analysis_def Let_def events_export_layer export_jobs_def area_def)

lemma rest_run:
  "dirs (run_fire_risk_analysis be str longitude latitude w) = dirs w"
  "files (run_fire_risk_analysis be str longitude latitude w) = files w"
  by (simp_all add: run_fire_risk_analysis_def Let_def rest_export_layer)

text \<open>
  Claim C5. A run with input longitude and latitude appends exactly six export jobs to the
  log, for NDVI, LST, Precip, Slope, Aspect_Score and Fire_Risk in this order. Each file
  name is the layer name, an underscore, the formatted input latitude, an underscore and the
  formatted input longitude; every job goes to the folder \<open>EarthEnginefatemeh\<close>, with the
  bounding box of the 30 km buffer around the input point as region and pixel scale 30.
\<close>

theorem export_dispatcher_six_jobs:
  "events (run_fire_risk_analysis be str longitude latitude w) =
     events w @
     map (\<lambda>(img, name).
            Export_Start
              \<lparr>job_image = img,
               description = name @ ''_'' @ str latitude @ ''_'' @ str longitude,
               folder = ''EarthEnginefatemeh'',
               fileNamePrefix = name @ ''_'' @ str latitude @ ''_'' @ str longitude,
               region = Bounds (Buffer (Point longitude latitude) 30000),
               scale = 30, maxPixels = 10 ^ 13\<rparr>)
       [(ndvi be (area longitude latitude), ''NDVI''),
        (lst be (area longitude latitude), ''LST''),
        (precip be (area longitude latitude), ''Precip''),
        (slope be (area longitude latitude), ''Slope''),
        (aspect_south be (area longitude latitude), ''Aspect_Score''),
        (fireRisk be (area longitude latitude), ''Fire_Risk'')]"
  by (simp add: run_fire_risk_analysis_def Let_def events_export_layer area_def)

section \<open>Properties of the map geometry\<close>

subsection \<open>Rounding to a double\<close>














subsection \<open>Round trip of a pixel\<close>







section \<open>Properties of the retrieval client\<close>

lemma GetContentFile_simps:
  "events (GetContentFile f p w) = events w @ [Get_Content_File (file_id f) p]"
  "files (GetContentFile f p w) = files w ++ [p \<mapsto> content f]"
  "dirs (GetContentFile f p w) = dirs w"
  by (simp_all add: GetContentFile_def)

lemma fold_GetContentFile:
  "events (fold (\<lambda>f. GetContentFile f (path f)) fl w) =
     events w @ map (\<lambda>f. Get_Content_File (file_id f) (path f)) fl \<and>
   files (fold (\<lambda>f. GetContentFile f (path f)) fl w) =
     files w ++ map_of (rev (map (\<lambda>f. (path f, content f)) fl)) \<and>
   dirs (fold (\<lambda>f. GetContentFile f (path f)) fl w) = dirs w"
proof (induction fl arbitrary: w)
  case Nil
  show ?case by simp
next
  case (Cons f fl)
  show ?case
    by (simp add: Cons.IH GetContentFile_simps del: map_add_upd)
qed

lemma download_no_folder:
  assumes "ListFile drv (folder_query ''EarthEnginefatemeh'') = []"
  shows "download_exports_from_drive pj drv w =
     Inl (Exception (''Folder '' @ [CHR 0x27] @ ''EarthEnginefatemeh'' @ [CHR 0x27] @
                       '' not found in Drive''))"
  using assms by (simp add: download_exports_from_drive_def Let_def)

lemma download_folder:
  assumes "ListFile drv (folder_query ''EarthEnginefatemeh'') = first # rest"
  shows "download_exports_from_drive pj drv w =
     Inr (fold (\<lambda>f. GetContentFile f (pj ''downloads'' (title f)))
            (filter (\<lambda>f. file_id first \<in> set (parents f) \<and> \<not> trashed f) drv)
            (makedirs ''downloads'' w))"
proof -
  have q: "children_query (file_id first) = (\<lambda>f. file_id first \<in> set (parents f) \<and> \<not> trashed f)"
    by (rule ext) (simp add: children_query_def)
  show ?thesis using assms
    by (simp add: download_exports_from_drive_def Let_def ListFile_def q)
qed

lemma events_countdown: "events (countdown w) = events w @ replicate 60 (Sleep 1)"
proof -
  have g: "events (fold (\<lambda>remaining. sleep 1) xs v) = events v @ replicate (length xs) (Sleep 1)"
    for xs :: "nat list" and v :: "'a world"
    by (induction xs arbitrary: v) (simp_all add: sleep_def replicate_append_same)
  show ?thesis unfolding countdown_def g by simp
qed

text \<open>
  Claim C6. If the storage listing has no untrashed folder named \<open>EarthEnginefatemeh\<close>, the
  download step raises an exception. Otherwise it succeeds: it fetches every untrashed item
  whose parent is the first matching folder, each once and in listing order, with no
  other filter; it writes each under the join of \<open>downloads\<close> and the item's title,
  replacing whatever the local file held, a later item of the same path replacing an
  earlier one; and the directory \<open>downloads\<close> exists afterwards.
\<close>

theorem retrieval_client:
  "(ListFile drv (folder_query ''EarthEnginefatemeh'') = [] \<longrightarrow>
      download_exports_from_drive path_join drv w =
        Inl (Exception (''Folder '' @ [CHR 0x27] @ ''EarthEnginefatemeh'' @ [CHR 0x27] @
                          '' not found in Drive''))) \<and>
   (ListFile drv (folder_query ''EarthEnginefatemeh'') = first # rest \<longrightarrow>
      (\<exists>w'. download_exports_from_drive path_join drv w = Inr w' \<and>
         events w' = events w @
           map (\<lambda>f. Get_Content_File (file_id f) (path_join ''downloads'' (title f)))
             (filter (\<lambda>f. file_id first \<in> set (parents f) \<and> \<not> trashed f) drv) \<and>
         files w' = files w ++
           map_of (rev (map (\<lambda>f. (path_join ''downloads'' (title f), content f))
             (filter (\<lambda>f. file_id first \<in> set (parents f) \<and> \<not> trashed f) drv))) \<and>
         dirs w' = insert ''downloads'' (dirs w)))"
proof (intro conjI impI)
  assume "ListFile drv (folder_query ''EarthEnginefatemeh'') = []"
  then show "download_exports_from_drive path_join drv w =
        Inl (Exception (''Folder '' @ [CHR 0x27] @ ''EarthEnginefatemeh'' @ [CHR 0x27] @
                          '' not found in Drive''))"
    by (rule download_no_folder)
next
  assume a: "ListFile drv (folder_query ''EarthEnginefatemeh'') = first # rest"
  let ?fl = "filter (\<lambda>f. file_id first \<in> set (parents f) \<and> \<not> trashed f) drv"
  let ?w' = "fold (\<lambda>f. GetContentFile f (path_join ''downloads'' (title f))) ?fl
               (makedirs ''downloads'' w)"
  have "download_exports_from_drive path_join drv w = Inr ?w'"
    using a by (rule download_folder)
  moreover have "events ?w' = events w @
           map (\<lambda>f. Get_Content_File (file_id f) (path_join ''downloads'' (title f))) ?fl"
    "files ?w' = files w ++
           map_of (rev (map (\<lambda>f. (path_join ''downloads'' (title f), content f)) ?fl))"
    "dirs ?w' = insert ''downloads'' (dirs w)"
    using fold_GetContentFile[of "\<lambda>f. path_join ''downloads'' (title f)" ?fl "makedirs ''downloads'' w"]
    by (simp_all add: makedirs_def)
  ultimately show "\<exists>w'. download_exports_from_drive path_join drv w = Inr w' \<and>
         events w' = events w @
           map (\<lambda>f. Get_Content_File (file_id f) (path_join ''downloads'' (title f))) ?fl \<and>
         files w' = files w ++
           map_of (rev (map (\<lambda>f. (path_join ''downloads'' (title f), content f)) ?fl)) \<and>
         dirs w' = insert ''downloads'' (dirs w)"
    by blast
qed

lemma example_folder:
  "ListFile example_drive (folder_query ''EarthEnginefatemeh'') = [example_drive ! 0]"
  by (simp add: ListFile_def folder_query_def example_drive_def)

theorem retrieval_client_witness:
  "download_exports_from_drive example_join [] example_world =
     Inl (Exception (''Folder '' @ [CHR 0x27] @ ''EarthEnginefatemeh'' @ [CHR 0x27] @
                       '' not found in Drive'')) \<and>
   (\<exists>w'. download_exports_from_drive example_join example_drive example_world = Inr w' \<and>
      events w' = [Get_Content_File ''f1'' ''downloads/NDVI_1_2.tif'',
                   Get_Content_File ''f2'' ''downloads/old.tif''] \<and>
      files w' ''downloads/old.tif'' = Some ''bb'' \<and>
      files w' ''downloads/NDVI_1_2.tif'' = Some ''aa'' \<and>
      dirs w' = {''downloads''})"
proof -
  have e: "ListFile [] (folder_query ''EarthEnginefatemeh'') = []"
    by (simp add: ListFile_def)
  have 1: "download_exports_from_drive example_join [] example_world =
     Inl (Exception (''Folder '' @ [CHR 0x27] @ ''EarthEnginefatemeh'' @ [CHR 0x27] @
                       '' not found in Drive''))"
    using retrieval_client[where drv = "[]" and path_join = example_join and w = example_world] e by blast
  let ?fl = "filter (\<lambda>f. file_id (example_drive ! 0) \<in> set (parents f) \<and> \<not> trashed f)
               example_drive"
  have fl: "?fl = [example_drive ! 1, example_drive ! 2]"
    by (simp add: example_drive_def)
  from retrieval_client[where drv = example_drive and first = "example_drive ! 0" and rest = "[]"
        and path_join = example_join and w = example_world] example_folder
  obtain w' where w': "download_exports_from_drive example_join example_drive example_world = Inr w'"
    "events w' = events example_world @
       map (\<lambda>f. Get_Content_File (file_id f) (example_join ''downloads'' (title f))) ?fl"
    "files w' = files example_world ++
       map_of (rev (map (\<lambda>f. (example_join ''downloads'' (title f), content f)) ?fl))"
    "dirs w' = insert ''downloads'' (dirs example_world)"
    by blast
  have 2: "\<exists>w'. download_exports_from_drive example_join example_drive example_world = Inr w' \<and>
      events w' = [Get_Content_File ''f1'' ''downloads/NDVI_1_2.tif'',
                   Get_Content_File ''f2'' ''downloads/old.tif''] \<and>
      files w' ''downloads/old.tif'' = Some ''bb'' \<and>
      files w' ''downloads/NDVI_1_2.tif'' = Some ''aa'' \<and>
      dirs w' = {''downloads''}"
  proof (intro exI conjI)
    show "download_exports_from_drive example_join example_drive example_world = Inr w'"
      by (rule w'(1))
    show "events w' = [Get_Content_File ''f1'' ''downloads/NDVI_1_2.tif'',
                   Get_Content_File ''f2'' ''downloads/old.tif'']"
      unfolding w'(2) fl by (simp add: example_drive_def example_world_def example_join_def)
    show "files w' ''downloads/old.tif'' = Some ''bb''"
      unfolding w'(3) fl by (simp add: example_drive_def example_world_def example_join_def)
    show "files w' ''downloads/NDVI_1_2.tif'' = Some ''aa''"
      unfolding w'(3) fl by (simp add: example_drive_def example_world_def example_join_def)
    show "dirs w' = {''downloads''}"
      unfolding w'(4) by (simp add: example_world_def)
  qed
  from 1 2 show ?thesis by blast
qed

section \<open>Properties of the province selection\<close>

lemma nearest_step_eq:
  "nearest_step lat lon prov st =
     (if less_min (pdist lat lon prov) (snd st) then (Some prov, Some (pdist lat lon prov)) else st)"
  by (cases prov) (simp add: nearest_step_def pdist_def Let_def)

text \<open>
  Loop invariant: the state is the initial one and nothing has been seen, or it holds the
  first minimiser of the entries seen so far together with its distance.
\<close>

lemma fold_nearest_inv:
  assumes "st = (None, None) \<and> seen = [] \<or>
           (\<exists>i. first_min lat lon seen i \<and> st = (Some (seen ! i), Some (pdist lat lon (seen ! i))))"
  shows "let st' = fold (nearest_step lat lon) ps st in
         (st' = (None, None) \<and> seen @ ps = []) \<or>
         (\<exists>i. first_min lat lon (seen @ ps) i \<and>
              st' = (Some ((seen @ ps) ! i), Some (pdist lat lon ((seen @ ps) ! i))))"
  using assms
proof (induction ps arbitrary: st seen)
  case Nil
  then show ?case by (simp add: Let_def)
next
  case (Cons p ps)
  have step: "nearest_step lat lon p st = (None, None) \<and> seen @ [p] = [] \<or>
     (\<exists>i. first_min lat lon (seen @ [p]) i \<and>
        nearest_step lat lon p st = (Some ((seen @ [p]) ! i), Some (pdist lat lon ((seen @ [p]) ! i))))"
  proof -
    from Cons.prems show ?thesis
    proof
      assume a: "st = (None, None) \<and> seen = []"
      then have "nearest_step lat lon p st = (Some p, Some (pdist lat lon p))"
        by (simp add: nearest_step_eq less_min_def)
      moreover have "first_min lat lon (seen @ [p]) 0" using a by (simp add: first_min_def)
      ultimately show ?thesis using a by (intro disjI2 exI[of _ 0]) simp
    next
      assume "\<exists>i. first_min lat lon seen i \<and> st = (Some (seen ! i), Some (pdist lat lon (seen ! i)))"
      then obtain i where i: "first_min lat lon seen i"
        and st: "st = (Some (seen ! i), Some (pdist lat lon (seen ! i)))" by blast
      from i have il: "i < length seen" by (simp add: first_min_def)
      show ?thesis
      proof (cases "pdist lat lon p < pdist lat lon (seen ! i)")
        case True
        then have ns: "nearest_step lat lon p st = (Some p, Some (pdist lat lon p))"
          using st by (simp add: nearest_step_eq less_min_def)
        have "first_min lat lon (seen @ [p]) (length seen)"
          unfolding first_min_def
        proof (intro conjI allI impI)
          show "length seen < length (seen @ [p])" by simp
        next
          fix j assume "j < length (seen @ [p])"
          then consider "j < length seen" | "j = length seen" by fastforce
          then show "pdist lat lon ((seen @ [p]) ! length seen) \<le> pdist lat lon ((seen @ [p]) ! j)"
          proof cases
            case 1
            with i have "pdist lat lon (seen ! i) \<le> pdist lat lon (seen ! j)"
              by (simp add: first_min_def)
            with True 1 show ?thesis by (simp add: nth_append)
          next
            case 2
            then show ?thesis by simp
          qed
        next
          fix j assume j: "j < length seen"
          with i have "pdist lat lon (seen ! i) \<le> pdist lat lon (seen ! j)"
            by (simp add: first_min_def)
          with True j show "pdist lat lon ((seen @ [p]) ! length seen) < pdist lat lon ((seen @ [p]) ! j)"
            by (simp add: nth_append)
        qed
        with ns show ?thesis by (intro disjI2 exI[of _ "length seen"]) simp
      next
        case False
        then have ns: "nearest_step lat lon p st = st"
          using st by (simp add: nearest_step_eq less_min_def)
        have "first_min lat lon (seen @ [p]) i"
          unfolding first_min_def
        proof (intro conjI allI impI)
          show "i < length (seen @ [p])" using il by simp
        next
          fix j assume "j < length (seen @ [p])"
          then consider "j < length seen" | "j = length seen" by fastforce
          then show "pdist lat lon ((seen @ [p]) ! i) \<le> pdist lat lon ((seen @ [p]) ! j)"
          proof cases
            case 1
            with i il show ?thesis by (simp add: first_min_def nth_append)
          next
            case 2
            with False il show ?thesis by (simp add: nth_append)
          qed
        next
          fix j assume "j < i"
          with i il show "pdist lat lon ((seen @ [p]) ! i) < pdist lat lon ((seen @ [p]) ! j)"
            by (simp add: first_min_def nth_append)
        qed
        with ns st il show ?thesis by (intro disjI2 exI[of _ i]) (simp add: nth_append)
      qed
    qed
  qed
  from Cons.IH[of "nearest_step lat lon p st" "seen @ [p]", OF step]
  show ?case by (simp add: Let_def)
qed

lemma nearest_loop_first_min:
  assumes "ps \<noteq> []"
  shows "\<exists>i. first_min lat lon ps i \<and> nearest_loop lat lon ps = Some (ps ! i)"
proof -
  have "let st' = fold (nearest_step lat lon) ps (None, None) in
         (st' = (None, None) \<and> [] @ ps = []) \<or>
         (\<exists>i. first_min lat lon ([] @ ps) i \<and>
              st' = (Some (([] @ ps) ! i), Some (pdist lat lon (([] @ ps) ! i))))"
    by (rule fold_nearest_inv) simp
  with assms show ?thesis by (auto simp: Let_def nearest_loop_def)
qed

lemma length_PROVINCES: "length PROVINCES = 30"
  by (simp add: PROVINCES_def)

lemma hypot_nonneg: "0 \<le> hypot a b"
  by (simp add: hypot_def)

text \<open>
  Claim C10. The list of provinces has 30 entries, so for every point the loop selects a
  province. The selected one is at index \<open>i\<close> where the distance (the hypotenuse of the
  latitude and longitude differences) from the point is minimal over all 30 entries, and
  every entry before \<open>i\<close> is strictly farther: among equally near provinces the earliest
  in the list is selected. The click handler calls the loop with the point of the click.
\<close>

theorem nearest_province:
  "length PROVINCES = 30 \<and>
   (\<exists>i<30. nearest_loop lat lon PROVINCES = Some (PROVINCES ! i) \<and>
      (\<forall>j<30. hypot (lat - fst (snd (PROVINCES ! i))) (lon - snd (snd (PROVINCES ! i)))
               \<le> hypot (lat - fst (snd (PROVINCES ! j))) (lon - snd (snd (PROVINCES ! j)))) \<and>
      (\<forall>j<i. hypot (lat - fst (snd (PROVINCES ! i))) (lon - snd (snd (PROVINCES ! i)))
               < hypot (lat - fst (snd (PROVINCES ! j))) (lon - snd (snd (PROVINCES ! j)))))"
proof -
  have ne: "PROVINCES \<noteq> []" using length_PROVINCES by auto
  from nearest_loop_first_min[OF ne, of lat lon]
  obtain i where "first_min lat lon PROVINCES i"
    and "nearest_loop lat lon PROVINCES = Some (PROVINCES ! i)" by blast
  then show ?thesis
    unfolding first_min_def pdist_def length_PROVINCES by blast
qed

theorem nearest_province_witness:
  "nearest_loop 35.6892 51.3890 PROVINCES = Some (''Tehran'', 35.6892, 51.3890)"
proof -
  let ?d = "\<lambda>k. hypot (35.6892 - fst (snd (PROVINCES ! k))) (51.3890 - snd (snd (PROVINCES ! k)))"
  from nearest_province[of "35.6892" "51.3890"]
  obtain i where i: "i < 30" "nearest_loop 35.6892 51.3890 PROVINCES = Some (PROVINCES ! i)"
    and strict: "\<forall>j<i. ?d i < ?d j" by blast
  have p0: "PROVINCES ! 0 = (''Tehran'', 35.6892, 51.3890)"
    by (simp add: PROVINCES_def)
  have d0: "?d 0 = 0" unfolding p0 by (simp add: hypot_def)
  have "i = 0"
  proof (rule ccontr)
    assume "i \<noteq> 0"
    then have "?d i < ?d 0" using strict by simp
    with d0 hypot_nonneg[of "35.6892 - fst (snd (PROVINCES ! i))" "51.3890 - snd (snd (PROVINCES ! i))"]
    show False by simp
  qed
  with i(2) p0 show ?thesis by simp
qed

section \<open>Order of dispatch, wait and retrieval\<close>

lemma on_map_click_Some:
  assumes "nearest_loop (fst (pixel_to_geo x y)) (snd (pixel_to_geo x y)) PROVINCES = Some (name, plat, plon)"
  shows "on_map_click be str path_join drv x y w =
     download_exports_from_drive path_join drv (countdown (run_fire_risk_analysis be str plon plat w))"
proof -
  obtain lat lon where g: "pixel_to_geo x y = (lat, lon)" by (cases "pixel_to_geo x y")
  with assms have "nearest_loop lat lon PROVINCES = Some (name, plat, plon)" by simp
  with g show ?thesis by (simp add: on_map_click_def)
qed

lemma length_export_jobs: "length (export_jobs be str lon lat) = 6"
  by (simp add: export_jobs_def)

lemma download_events:
  assumes "download_exports_from_drive path_join drv w = Inr w'"
  shows "\<exists>fl. set fl \<subseteq> set drv \<and> events w' = events w @
     map (\<lambda>f. Get_Content_File (file_id f) (path_join ''downloads'' (title f))) fl"
proof (cases "ListFile drv (folder_query ''EarthEnginefatemeh'')")
  case Nil
  from download_no_folder[OF Nil, of path_join w] assms show ?thesis by simp
next
  case (Cons first rest)
  let ?fl = "filter (\<lambda>f. file_id first \<in> set (parents f) \<and> \<not> trashed f) drv"
  from download_folder[OF Cons, of path_join w] assms
  have "w' = fold (\<lambda>f. GetContentFile f (path_join ''downloads'' (title f))) ?fl
            (makedirs ''downloads'' w)" by simp
  then have "events w' = events w @
     map (\<lambda>f. Get_Content_File (file_id f) (path_join ''downloads'' (title f))) ?fl"
    using fold_GetContentFile[of "\<lambda>f. path_join ''downloads'' (title f)" ?fl "makedirs ''downloads'' w"]
    by (simp add: makedirs_def)
  moreover have "set ?fl \<subseteq> set drv" by auto
  ultimately show ?thesis by blast
qed

text \<open>
  Claim C8. For every click the handler finds a province and is the download step started
  in the world that the run and the countdown leave behind. In that world the log holds,
  after what was logged before, the six export jobs and then sixty sleeps of one second,
  and nothing else. When the download step succeeds, its fetches follow these in the log.
\<close>

theorem retrieval_after_dispatch_and_wait:
  "\<exists>name plat plon.
     nearest_loop (fst (pixel_to_geo x y)) (snd (pixel_to_geo x y)) PROVINCES =
       Some (name, plat, plon) \<and>
     on_map_click be str path_join drv x y w =
       download_exports_from_drive path_join drv
         (countdown (run_fire_risk_analysis be str plon plat w)) \<and>
     length (export_jobs be str plon plat) = 6 \<and>
     events (countdown (run_fire_risk_analysis be str plon plat w)) =
       events w @ map Export_Start (export_jobs be str plon plat) @ replicate 60 (Sleep 1) \<and>
     (\<forall>w'. on_map_click be str path_join drv x y w = Inr w' \<longrightarrow>
        (\<exists>fl :: drive_file list. events w' =
           events w @ map Export_Start (export_jobs be str plon plat) @
           replicate 60 (Sleep 1) @
           map (\<lambda>f. Get_Content_File (file_id f) (path_join ''downloads'' (title f))) fl))"
proof -
  have ne: "PROVINCES \<noteq> []" using length_PROVINCES by auto
  from nearest_loop_first_min[OF ne, of "fst (pixel_to_geo x y)" "snd (pixel_to_geo x y)"]
  obtain prov where "nearest_loop (fst (pixel_to_geo x y)) (snd (pixel_to_geo x y)) PROVINCES = Some prov"
    by blast
  then obtain name plat plon where
    n: "nearest_loop (fst (pixel_to_geo x y)) (snd (pixel_to_geo x y)) PROVINCES = Some (name, plat, plon)"
    by (cases prov) auto
  let ?w2 = "countdown (run_fire_risk_analysis be str plon plat w)"
  have c: "on_map_click be str path_join drv x y w = download_exports_from_drive path_join drv ?w2"
    using n by (rule on_map_click_Some)
  have e: "events ?w2 = events w @ map Export_Start (export_jobs be str plon plat) @ replicate 60 (Sleep 1)"
    by (simp add: events_countdown events_run)
  have d: "\<forall>w'. on_map_click be str path_join drv x y w = Inr w' \<longrightarrow>
        (\<exists>fl :: drive_file list. events w' =
           events w @ map Export_Start (export_jobs be str plon plat) @
           replicate 60 (Sleep 1) @
           map (\<lambda>f. Get_Content_File (file_id f) (path_join ''downloads'' (title f))) fl)"
  proof (intro allI impI)
    fix w' assume "on_map_click be str path_join drv x y w = Inr w'"
    with c have "download_exports_from_drive path_join drv ?w2 = Inr w'" by simp
    from download_events[OF this]
    obtain fl :: "drive_file list" where "events w' = events ?w2 @
       map (\<lambda>f. Get_Content_File (file_id f) (path_join ''downloads'' (title f))) fl"
      by auto
    then have "events w' =
           events w @ map Export_Start (export_jobs be str plon plat) @
           replicate 60 (Sleep 1) @
           map (\<lambda>f. Get_Content_File (file_id f) (path_join ''downloads'' (title f))) fl"
      unfolding e by simp
    then show "\<exists>fl :: drive_file list. events w' =
           events w @ map Export_Start (export_jobs be str plon plat) @
           replicate 60 (Sleep 1) @
           map (\<lambda>f. Get_Content_File (file_id f) (path_join ''downloads'' (title f))) fl"
      by (rule exI)
  qed
  from n c e d length_export_jobs show ?thesis by blast
qed

theorem retrieval_after_dispatch_and_wait_witness:
  "\<exists>plat plon w' (fl :: drive_file list).
     on_map_click empty_backend example_str example_join example_drive 400 500 example_world = Inr w' \<and>
     events w' =
       map Export_Start (export_jobs empty_backend example_str plon plat) @
       replicate 60 (Sleep 1) @
       map (\<lambda>f. Get_Content_File (file_id f) (example_join ''downloads'' (title f))) fl"
proof -
  from retrieval_after_dispatch_and_wait[of 400 500 empty_backend example_str example_join
      example_drive example_world]
  obtain name :: string and plat plon where
    c: "on_map_click empty_backend example_str example_join example_drive 400 500 example_world =
       download_exports_from_drive example_join example_drive
         (countdown (run_fire_risk_analysis empty_backend example_str plon plat example_world))"
    and d: "\<forall>w'. on_map_click empty_backend example_str example_join example_drive 400 500
              example_world = Inr w' \<longrightarrow>
        (\<exists>fl :: drive_file list. events w' =
           events example_world @ map Export_Start (export_jobs empty_backend example_str plon plat) @
           replicate 60 (Sleep 1) @
           map (\<lambda>f. Get_Content_File (file_id f) (example_join ''downloads'' (title f))) fl)"
    by blast
  from download_folder[OF example_folder, of example_join
      "countdown (run_fire_risk_analysis empty_backend example_str plon plat example_world)"] c
  obtain w' where w': "on_map_click empty_backend example_str example_join example_drive 400 500
    example_world = Inr w'" by simp
  with d obtain fl :: "drive_file list" where "events w' =
           events example_world @ map Export_Start (export_jobs empty_backend example_str plon plat) @
           replicate 60 (Sleep 1) @
           map (\<lambda>f. Get_Content_File (file_id f) (example_join ''downloads'' (title f))) fl"
    by blast
  then have "events w' =
           map Export_Start (export_jobs empty_backend example_str plon plat) @
           replicate 60 (Sleep 1) @
           map (\<lambda>f. Get_Content_File (file_id f) (example_join ''downloads'' (title f))) fl"
    by (simp add: example_world_def)
  with w' show ?thesis by blast
qed

section \<open>Properties of the layers\<close>

subsection \<open>Bands and values\<close>

lemma band_value_map_bands:
  "band_value (map_bands f img) n p = map_option f (band_value img n p)"
  by (induction img) (auto simp: band_value_def map_bands_def)

lemma length_map_bands: "length (map_bands f img) = length img"
  by (simp add: map_bands_def)

lemma length_rename: "length (rename img n) \<le> Suc 0"
  by (simp add: rename_def)

lemma single_band:
  assumes "length img \<le> 1" and "band_value img n p = Some v"
  shows "\<exists>g. img = [(n, g)] \<and> g p = v"
proof (cases img)
  case Nil
  with assms(2) show ?thesis by (simp add: band_value_def)
next
  case (Cons x rest)
  with assms(1) have r: "rest = []" by simp
  obtain m g where x: "x = (m, g)" by (cases x)
  from assms(2) Cons r x show ?thesis
    by (auto simp: band_value_def split: if_splits)
qed

lemma normalized_value:
  "band_value (clamp (unitScale img lo hi) 0 1) n p =
     map_option (\<lambda>v. max 0 (min 1 ((v - lo) / (hi - lo)))) (band_value img n p)"
  by (simp add: clamp_def unitScale_def band_value_map_bands option.map_comp comp_def)

lemma length_layers:
  "length (lst_norm be a) \<le> 1" "length (ndvi_norm be a) \<le> 1" "length (slope_norm be a) \<le> 1"
  "length (aspect_south be a) \<le> 1" "length (precip_norm be a) \<le> 1"
  by (simp_all add: lst_norm_def ndvi_norm_def slope_norm_def aspect_south_def precip_norm_def
      clamp_def unitScale_def length_map_bands length_rename lst_def ndvi_def precip_def slope_def
      Algorithms_If_def)

lemma risk_index_single:
  "risk_index [(n1, l)] [(n2, n)] [(n3, s)] [(n4, as)] [(n5, pr)] =
     [(''Fire_Risk'', \<lambda>p. 0.30 * l p - 0.30 * n p + 0.15 * s p + 0.15 * as p - 0.10 * pr p)]"
  by (simp add: risk_index_def rename_def add_def multiply_def map_bands_def fun_eq_iff)

subsection \<open>The layers of the example backend\<close>

lemma example_s2:
  "s2 (example_backend b8 b4 raw rain slp asp) a =
     [ImageCollection (example_backend b8 b4 raw rain slp asp) ''COPERNICUS/S2_SR'' ! 0,
      ImageCollection (example_backend b8 b4 raw rain slp asp) ''COPERNICUS/S2_SR'' ! 2,
      ImageCollection (example_backend b8 b4 raw rain slp asp) ''COPERNICUS/S2_SR'' ! 3]"
  by (simp add: s2_def example_backend_def filter_lt_def filterDate_def filterBounds_def
      start_def end_date_def)

lemma example_s2_median:
  "s2_median (example_backend b8 b4 raw rain slp asp) a = [(''B4'', \<lambda>p. b4), (''B8'', \<lambda>p. b8)]"
  unfolding s2_median_def example_s2
  by (simp add: example_backend_def median_def reduce_def bandNames_def band_samples_def
      median_of_def Let_def)

lemma example_ndvi:
  "ndvi (example_backend b8 b4 raw rain slp asp) a = [(''NDVI'', \<lambda>p. (b8 - b4) / (b8 + b4))]"
  unfolding ndvi_def example_s2_median
  by (simp add: Algorithms_If_def bandNames_def rename_def normalizedDifference_def)

lemma example_lstImage:
  "lstImage (example_backend b8 b4 raw rain slp asp) a = [(''LST_Day_1km'', \<lambda>p. raw)]"
  by (simp add: lstImage_def lstCol_def example_backend_def filterDate_def filterBounds_def
      start_def end_date_def select_col_def select_def mean_def reduce_def bandNames_def
      band_samples_def mean_of_def)

lemma example_lst:
  "lst (example_backend b8 b4 raw rain slp asp) a = [(''LST'', \<lambda>p. raw * 0.02 - 273.15)]"
  unfolding lst_def example_lstImage
  by (simp add: Algorithms_If_def bandNames_def rename_def multiply_def subtract_def map_bands_def)

lemma example_precipImage:
  "precipImage (example_backend b8 b4 raw rain slp asp) a = [(''precipitation'', \<lambda>p. rain)]"
  by (simp add: precipImage_def chirpsCol_def example_backend_def filterDate_def filterBounds_def
      end_date_def sum_col_def reduce_def bandNames_def band_samples_def)

lemma example_precip:
  "precip (example_backend b8 b4 raw rain slp asp) a = [(''Precip'', \<lambda>p. rain)]"
  unfolding precip_def example_precipImage
  by (simp add: Algorithms_If_def bandNames_def rename_def)

lemma example_slope:
  "slope (example_backend b8 b4 raw rain slp asp) a = [(''Slope'', \<lambda>p. slp)]"
  by (simp add: slope_def terrain_def dem_def example_backend_def select_def rename_def)

lemma example_aspect:
  "aspect (example_backend b8 b4 raw rain slp asp) a = [(''Aspect'', \<lambda>p. asp)]"
  by (simp add: aspect_def terrain_def dem_def example_backend_def select_def rename_def)

lemma example_norms:
  "ndvi_norm (example_backend b8 b4 raw rain slp asp) a =
     [(''NDVI'', \<lambda>p. max 0 (min 1 (((b8 - b4) / (b8 + b4) - 0) / (1 - 0))))]"
  "lst_norm (example_backend b8 b4 raw rain slp asp) a =
     [(''LST'', \<lambda>p. max 0 (min 1 ((raw * 0.02 - 273.15 - 20) / (45 - 20))))]"
  "slope_norm (example_backend b8 b4 raw rain slp asp) a =
     [(''Slope'', \<lambda>p. max 0 (min 1 ((slp - 0) / (60 - 0))))]"
  "precip_norm (example_backend b8 b4 raw rain slp asp) a =
     [(''Precip'', \<lambda>p. max 0 (min 1 ((rain - 0) / (150 - 0))))]"
  "aspect_south (example_backend b8 b4 raw rain slp asp) a =
     [(''Aspect_Score'', \<lambda>p. aspect_expression asp)]"
  unfolding ndvi_norm_def lst_norm_def slope_norm_def precip_norm_def aspect_south_def
    example_ndvi example_lst example_slope example_precip example_aspect
  by (simp_all add: clamp_def unitScale_def map_bands_def rename_def)

subsection \<open>Risk index\<close>

text \<open>
  Claim C1. The risk index of five one-band inputs is the one-band image \<open>Fire_Risk\<close>
  whose value at every pixel is 0.30 times the temperature input, minus 0.30 times the
  vegetation input, plus 0.15 times the slope input, plus 0.15 times the aspect score,
  minus 0.10 times the rainfall input: a function of the five inputs and nothing else, so
  equal inputs give equal outputs. In a run, wherever the five normalised layers have the
  values lv, nv, sv, av, pv at a pixel, the risk layer has that weighted sum there; with
  lv = 1 and the others 0 it is 0.30.
\<close>

theorem fire_risk_weighted_sum:
  "risk_index [(n1, l)] [(n2, n)] [(n3, s)] [(n4, as)] [(n5, pr)] =
     [(''Fire_Risk'', \<lambda>p. 0.30 * l p - 0.30 * n p + 0.15 * s p + 0.15 * as p - 0.10 * pr p)] \<and>
   (band_value (lst_norm be a) ''LST'' p = Some lv \<and>
    band_value (ndvi_norm be a) ''NDVI'' p = Some nv \<and>
    band_value (slope_norm be a) ''Slope'' p = Some sv \<and>
    band_value (aspect_south be a) ''Aspect_Score'' p = Some av \<and>
    band_value (precip_norm be a) ''Precip'' p = Some pv \<longrightarrow>
    band_value (fireRisk be a) ''Fire_Risk'' p =
      Some (0.30 * lv - 0.30 * nv + 0.15 * sv + 0.15 * av - 0.10 * pv))"
proof (intro conjI impI)
  show "risk_index [(n1, l)] [(n2, n)] [(n3, s)] [(n4, as)] [(n5, pr)] =
     [(''Fire_Risk'', \<lambda>p. 0.30 * l p - 0.30 * n p + 0.15 * s p + 0.15 * as p - 0.10 * pr p)]"
    by (rule risk_index_single)
next
  assume h: "band_value (lst_norm be a) ''LST'' p = Some lv \<and>
    band_value (ndvi_norm be a) ''NDVI'' p = Some nv \<and>
    band_value (slope_norm be a) ''Slope'' p = Some sv \<and>
    band_value (aspect_south be a) ''Aspect_Score'' p = Some av \<and>
    band_value (precip_norm be a) ''Precip'' p = Some pv"
  from h have h1: "band_value (lst_norm be a) ''LST'' p = Some lv"
    and h2: "band_value (ndvi_norm be a) ''NDVI'' p = Some nv"
    and h3: "band_value (slope_norm be a) ''Slope'' p = Some sv"
    and h4: "band_value (aspect_south be a) ''Aspect_Score'' p = Some av"
    and h5: "band_value (precip_norm be a) ''Precip'' p = Some pv" by simp_all
  from single_band[OF length_layers(1) h1] obtain g1 where
    g1: "lst_norm be a = [(''LST'', g1)]" "g1 p = lv" by blast
  from single_band[OF length_layers(2) h2] obtain g2 where
    g2: "ndvi_norm be a = [(''NDVI'', g2)]" "g2 p = nv" by blast
  from single_band[OF length_layers(3) h3] obtain g3 where
    g3: "slope_norm be a = [(''Slope'', g3)]" "g3 p = sv" by blast
  from single_band[OF length_layers(4) h4] obtain g4 where
    g4: "aspect_south be a = [(''Aspect_Score'', g4)]" "g4 p = av" by blast
  from single_band[OF length_layers(5) h5] obtain g5 where
    g5: "precip_norm be a = [(''Precip'', g5)]" "g5 p = pv" by blast
  have fr: "fireRisk be a =
     [(''Fire_Risk'', \<lambda>p. 0.30 * g1 p - 0.30 * g2 p + 0.15 * g3 p + 0.15 * g4 p - 0.10 * g5 p)]"
    unfolding fireRisk_def g1(1) g2(1) g3(1) g4(1) g5(1) by (rule risk_index_single)
  show "band_value (fireRisk be a) ''Fire_Risk'' p =
      Some (0.30 * lv - 0.30 * nv + 0.15 * sv + 0.15 * av - 0.10 * pv)"
    unfolding fr band_value_def by (simp add: g1(2) g2(2) g3(2) g4(2) g5(2))
qed

theorem fire_risk_weighted_sum_witness:
  "band_value (fireRisk (example_backend 1 1 15907.5 0 0 (180 + pi / 2 * 180 / 3.1416))
      (area 51.3890 35.6892)) ''Fire_Risk'' 0 = Some 0.30"
proof -
  let ?be = "example_backend 1 1 15907.5 0 0 (180 + pi / 2 * 180 / 3.1416)"
  let ?a = "area 51.3890 35.6892"
  have l: "band_value (lst_norm ?be ?a) ''LST'' 0 = Some 1"
    unfolding example_norms by (simp add: band_value_def)
  have n: "band_value (ndvi_norm ?be ?a) ''NDVI'' 0 = Some 0"
    unfolding example_norms by (simp add: band_value_def)
  have s: "band_value (slope_norm ?be ?a) ''Slope'' 0 = Some 0"
    unfolding example_norms by (simp add: band_value_def)
  have a: "band_value (aspect_south ?be ?a) ''Aspect_Score'' 0 = Some 0"
    unfolding example_norms by (simp add: band_value_def aspect_expression_def)
  have p: "band_value (precip_norm ?be ?a) ''Precip'' 0 = Some 0"
    unfolding example_norms by (simp add: band_value_def)
  have "band_value (fireRisk ?be ?a) ''Fire_Risk'' 0 =
      Some (0.30 * 1 - 0.30 * 0 + 0.15 * 0 + 0.15 * 0 - 0.10 * 0)"
    using fire_risk_weighted_sum[where be = ?be and a = ?a and p = 0 and lv = 1 and nv = 0
      and sv = 0 and av = 0 and pv = 0] l n s a p
    by blast
  then show ?thesis by simp
qed

subsection \<open>Fallback defaults\<close>

lemma reduce_Nil: "col = [] \<Longrightarrow> bandNames (reduce r col) = []"
  by (simp add: reduce_def bandNames_def)

text \<open>
  Claim C2. For each of the three queried signals, an empty filtered collection reduces to
  an image with no bands, and when the reduced image has no bands the layer is the constant
  image of the default value at every pixel: 0 for NDVI, 25 for LST, 10 for Precip. Each
  layer is one conditional on the band list of the one reduced image, with the converted
  image as the other branch.
\<close>

theorem fallback_defaults:
  "(s2 be a = [] \<longrightarrow> bandNames (s2_median be a) = []) \<and>
   (lstCol be a = [] \<longrightarrow> bandNames (lstImage be a) = []) \<and>
   (chirpsCol be a = [] \<longrightarrow> bandNames (precipImage be a) = []) \<and>
   (bandNames (s2_median be a) = [] \<longrightarrow> ndvi be a = [(''NDVI'', \<lambda>p. 0)]) \<and>
   (bandNames (lstImage be a) = [] \<longrightarrow> lst be a = [(''LST'', \<lambda>p. 25)]) \<and>
   (bandNames (precipImage be a) = [] \<longrightarrow> precip be a = [(''Precip'', \<lambda>p. 10)]) \<and>
   ndvi be a =
     (if bandNames (s2_median be a) = [] then [(''NDVI'', \<lambda>p. 0)]
      else rename (normalizedDifference (s2_median be a) ''B8'' ''B4'') ''NDVI'') \<and>
   lst be a =
     (if bandNames (lstImage be a) = [] then [(''LST'', \<lambda>p. 25)]
      else rename (subtract (multiply (lstImage be a) 0.02) 273.15) ''LST'') \<and>
   precip be a =
     (if bandNames (precipImage be a) = [] then [(''Precip'', \<lambda>p. 10)]
      else rename (precipImage be a) ''Precip'')"
proof -
  have c: "rename (constant_image c) n = [(n, \<lambda>p. c)]" for c and n :: string
    by (simp add: rename_def constant_image_def)
  have 1: "s2 be a = [] \<longrightarrow> bandNames (s2_median be a) = []"
    by (simp add: s2_median_def median_def reduce_Nil)
  have 2: "lstCol be a = [] \<longrightarrow> bandNames (lstImage be a) = []"
    by (simp add: lstImage_def mean_def reduce_Nil)
  have 3: "chirpsCol be a = [] \<longrightarrow> bandNames (precipImage be a) = []"
    by (simp add: precipImage_def sum_col_def reduce_Nil)
  have 4: "ndvi be a =
     (if bandNames (s2_median be a) = [] then [(''NDVI'', \<lambda>p. 0)]
      else rename (normalizedDifference (s2_median be a) ''B8'' ''B4'') ''NDVI'')"
    by (simp add: ndvi_def Algorithms_If_def c)
  have 5: "lst be a =
     (if bandNames (lstImage be a) = [] then [(''LST'', \<lambda>p. 25)]
      else rename (subtract (multiply (lstImage be a) 0.02) 273.15) ''LST'')"
    by (simp add: lst_def Algorithms_If_def c)
  have 6: "precip be a =
     (if bandNames (precipImage be a) = [] then [(''Precip'', \<lambda>p. 10)]
      else rename (precipImage be a) ''Precip'')"
    by (simp add: precip_def Algorithms_If_def c)
  have 7: "bandNames (s2_median be a) = [] \<longrightarrow> ndvi be a = [(''NDVI'', \<lambda>p. 0)]"
    using 4 by simp
  have 8: "bandNames (lstImage be a) = [] \<longrightarrow> lst be a = [(''LST'', \<lambda>p. 25)]"
    using 5 by simp
  have 9: "bandNames (precipImage be a) = [] \<longrightarrow> precip be a = [(''Precip'', \<lambda>p. 10)]"
    using 6 by simp
  from 1 2 3 7 8 9 4 5 6 show ?thesis by (intro conjI)
qed

theorem fallback_defaults_witness:
  "ndvi empty_backend (area 51.3890 35.6892) = [(''NDVI'', \<lambda>p. 0)] \<and>
   lst empty_backend (area 51.3890 35.6892) = [(''LST'', \<lambda>p. 25)] \<and>
   precip empty_backend (area 51.3890 35.6892) = [(''Precip'', \<lambda>p. 10)]"
proof -
  let ?a = "area 51.3890 35.6892"
  have e: "s2 empty_backend ?a = []" "lstCol empty_backend ?a = []" "chirpsCol empty_backend ?a = []"
    by (simp_all add: s2_def lstCol_def chirpsCol_def empty_backend_def filter_lt_def
        filterDate_def filterBounds_def select_col_def)
  from fallback_defaults[of empty_backend ?a] e show ?thesis by blast
qed

subsection \<open>Normalisation\<close>

text \<open>
  Claim C3. For each of the four linearly rescaled layers (NDVI with bounds 0 and 1, LST
  with 20 and 45, Slope with 0 and 60, Precip with 0 and 150) and every value \<open>v\<close> of a band
  of the layer at a pixel, whatever its size, the normalised layer has a value at that band
  and pixel, and it lies between 0 and 1 inclusive; it is exactly 1 when \<open>v\<close> is the upper
  bound plus 1000 and exactly 0 when \<open>v\<close> is the lower bound minus 1000.
\<close>

theorem normalizer_clamped:
  "(band_value (ndvi be a) n p = Some v \<longrightarrow>
      (\<exists>y. band_value (ndvi_norm be a) n p = Some y \<and> 0 \<le> y \<and> y \<le> 1 \<and>
           (v = 1 + 1000 \<longrightarrow> y = 1) \<and> (v = 0 - 1000 \<longrightarrow> y = 0))) \<and>
   (band_value (lst be a) n p = Some v \<longrightarrow>
      (\<exists>y. band_value (lst_norm be a) n p = Some y \<and> 0 \<le> y \<and> y \<le> 1 \<and>
           (v = 45 + 1000 \<longrightarrow> y = 1) \<and> (v = 20 - 1000 \<longrightarrow> y = 0))) \<and>
   (band_value (slope be a) n p = Some v \<longrightarrow>
      (\<exists>y. band_value (slope_norm be a) n p = Some y \<and> 0 \<le> y \<and> y \<le> 1 \<and>
           (v = 60 + 1000 \<longrightarrow> y = 1) \<and> (v = 0 - 1000 \<longrightarrow> y = 0))) \<and>
   (band_value (precip be a) n p = Some v \<longrightarrow>
      (\<exists>y. band_value (precip_norm be a) n p = Some y \<and> 0 \<le> y \<and> y \<le> 1 \<and>
           (v = 150 + 1000 \<longrightarrow> y = 1) \<and> (v = 0 - 1000 \<longrightarrow> y = 0)))"
proof (intro conjI impI)
  assume "band_value (ndvi be a) n p = Some v"
  then show "\<exists>y. band_value (ndvi_norm be a) n p = Some y \<and> 0 \<le> y \<and> y \<le> 1 \<and>
           (v = 1 + 1000 \<longrightarrow> y = 1) \<and> (v = 0 - 1000 \<longrightarrow> y = 0)"
    by (simp add: ndvi_norm_def normalized_value)
next
  assume "band_value (lst be a) n p = Some v"
  then show "\<exists>y. band_value (lst_norm be a) n p = Some y \<and> 0 \<le> y \<and> y \<le> 1 \<and>
           (v = 45 + 1000 \<longrightarrow> y = 1) \<and> (v = 20 - 1000 \<longrightarrow> y = 0)"
    by (simp add: lst_norm_def normalized_value)
next
  assume "band_value (slope be a) n p = Some v"
  then show "\<exists>y. band_value (slope_norm be a) n p = Some y \<and> 0 \<le> y \<and> y \<le> 1 \<and>
           (v = 60 + 1000 \<longrightarrow> y = 1) \<and> (v = 0 - 1000 \<longrightarrow> y = 0)"
    by (simp add: slope_norm_def normalized_value)
next
  assume "band_value (precip be a) n p = Some v"
  then show "\<exists>y. band_value (precip_norm be a) n p = Some y \<and> 0 \<le> y \<and> y \<le> 1 \<and>
           (v = 150 + 1000 \<longrightarrow> y = 1) \<and> (v = 0 - 1000 \<longrightarrow> y = 0)"
    by (simp add: precip_norm_def normalized_value)
qed

lemma example_values:
  "band_value (ndvi (example_backend b8 b4 raw rain slp asp) a) ''NDVI'' 0 = Some ((b8 - b4) / (b8 + b4))"
  "band_value (lst (example_backend b8 b4 raw rain slp asp) a) ''LST'' 0 = Some (raw * 0.02 - 273.15)"
  "band_value (slope (example_backend b8 b4 raw rain slp asp) a) ''Slope'' 0 = Some slp"
  "band_value (precip (example_backend b8 b4 raw rain slp asp) a) ''Precip'' 0 = Some rain"
  "band_value (aspect (example_backend b8 b4 raw rain slp asp) a) ''Aspect'' 0 = Some asp"
  unfolding example_ndvi example_lst example_slope example_precip example_aspect
  by (simp_all add: band_value_def)

theorem normalizer_clamped_witness:
  "band_value (ndvi_norm (example_backend 1002 (- 1000) 65907.5 1150 1060 0)
       (area 51.3890 35.6892)) ''NDVI'' 0 = Some 1 \<and>
   band_value (lst_norm (example_backend 1002 (- 1000) 65907.5 1150 1060 0)
       (area 51.3890 35.6892)) ''LST'' 0 = Some 1 \<and>
   band_value (slope_norm (example_backend 1002 (- 1000) 65907.5 1150 1060 0)
       (area 51.3890 35.6892)) ''Slope'' 0 = Some 1 \<and>
   band_value (precip_norm (example_backend 1002 (- 1000) 65907.5 1150 1060 0)
       (area 51.3890 35.6892)) ''Precip'' 0 = Some 1 \<and>
   band_value (ndvi_norm (example_backend (- 999) 1001 (- 35342.5) (- 1000) (- 1000) 0)
       (area 51.3890 35.6892)) ''NDVI'' 0 = Some 0 \<and>
   band_value (lst_norm (example_backend (- 999) 1001 (- 35342.5) (- 1000) (- 1000) 0)
       (area 51.3890 35.6892)) ''LST'' 0 = Some 0 \<and>
   band_value (slope_norm (example_backend (- 999) 1001 (- 35342.5) (- 1000) (- 1000) 0)
       (area 51.3890 35.6892)) ''Slope'' 0 = Some 0 \<and>
   band_value (precip_norm (example_backend (- 999) 1001 (- 35342.5) (- 1000) (- 1000) 0)
       (area 51.3890 35.6892)) ''Precip'' 0 = Some 0"
proof -
  let ?hi = "example_backend 1002 (- 1000) 65907.5 1150 1060 0"
  let ?lo = "example_backend (- 999) 1001 (- 35342.5) (- 1000) (- 1000) 0"
  let ?a = "area 51.3890 35.6892"
  have h1: "band_value (ndvi ?hi ?a) ''NDVI'' 0 = Some (1 + 1000)"
    unfolding example_values by simp
  have h2: "band_value (lst ?hi ?a) ''LST'' 0 = Some (45 + 1000)"
    unfolding example_values by simp
  have h3: "band_value (slope ?hi ?a) ''Slope'' 0 = Some (60 + 1000)"
    unfolding example_values by simp
  have h4: "band_value (precip ?hi ?a) ''Precip'' 0 = Some (150 + 1000)"
    unfolding example_values by simp
  have l1: "band_value (ndvi ?lo ?a) ''NDVI'' 0 = Some (0 - 1000)"
    unfolding example_values by simp
  have l2: "band_value (lst ?lo ?a) ''LST'' 0 = Some (20 - 1000)"
    unfolding example_values by simp
  have l3: "band_value (slope ?lo ?a) ''Slope'' 0 = Some (0 - 1000)"
    unfolding example_values by simp
  have l4: "band_value (precip ?lo ?a) ''Precip'' 0 = Some (0 - 1000)"
    unfolding example_values by simp
  have "band_value (ndvi_norm ?hi ?a) ''NDVI'' 0 = Some 1"
    using normalizer_clamped[of ?hi ?a "''NDVI''" 0 "1 + 1000"] h1 by auto
  moreover have "band_value (lst_norm ?hi ?a) ''LST'' 0 = Some 1"
    using normalizer_clamped[of ?hi ?a "''LST''" 0 "45 + 1000"] h2 by auto
  moreover have "band_value (slope_norm ?hi ?a) ''Slope'' 0 = Some 1"
    using normalizer_clamped[of ?hi ?a "''Slope''" 0 "60 + 1000"] h3 by auto
  moreover have "band_value (precip_norm ?hi ?a) ''Precip'' 0 = Some 1"
    using normalizer_clamped[of ?hi ?a "''Precip''" 0 "150 + 1000"] h4 by auto
  moreover have "band_value (ndvi_norm ?lo ?a) ''NDVI'' 0 = Some 0"
    using normalizer_clamped[of ?lo ?a "''NDVI''" 0 "0 - 1000"] l1 by auto
  moreover have "band_value (lst_norm ?lo ?a) ''LST'' 0 = Some 0"
    using normalizer_clamped[of ?lo ?a "''LST''" 0 "20 - 1000"] l2 by auto
  moreover have "band_value (slope_norm ?lo ?a) ''Slope'' 0 = Some 0"
    using normalizer_clamped[of ?lo ?a "''Slope''" 0 "0 - 1000"] l3 by auto
  moreover have "band_value (precip_norm ?lo ?a) ''Precip'' 0 = Some 0"
    using normalizer_clamped[of ?lo ?a "''Precip''" 0 "0 - 1000"] l4 by auto
  ultimately show ?thesis by (intro conjI)
qed

subsection \<open>The cosine at 3.1416\<close>

lemma lessThan_12: "{..<12::nat} = {0,1,2,3,4,5,6,7,8,9,10,11}"
  by (auto, arith)

lemma cos_sum_12:
  "(\<Sum>m<12. cos_coeff m * (x::real) ^ m) =
     1 - x^2 / 2 + x^4 / 24 - x^6 / 720 + x^8 / 40320 - x^10 / 3628800"
  unfolding lessThan_12 by (simp add: cos_coeff_def fact_numeral)

lemma cos_15708_bounds: "cos (3927 / 2500 :: real) < 0" "- (1 / 200000) < cos (3927 / 2500 :: real)"
proof -
  let ?x = "3927 / 2500 :: real"
  let ?S = "1 - ?x^2 / 2 + ?x^4 / 24 - ?x^6 / 720 + ?x^8 / 40320 - ?x^10 / 3628800"
  let ?R = "?x ^ 12 / 479001600"
  obtain t where c: "cos ?x = (\<Sum>m<12. cos_coeff m * ?x ^ m) + cos (t + 1 / 2 * real 12 * pi) / fact 12 * ?x ^ 12"
    using Maclaurin_cos_expansion[of ?x 12] by blast
  let ?r = "cos (t + 1 / 2 * real 12 * pi)"
  have r: "- 1 \<le> ?r" "?r \<le> 1" by simp_all
  have p: "0 \<le> ?R" by simp
  have c': "cos ?x = ?S + ?r * ?R"
    using c unfolding cos_sum_12 by (simp add: fact_numeral)
  have up: "?r * ?R \<le> 1 * ?R"
    using r(2) p by (rule mult_right_mono)
  have lo: "(- 1) * ?R \<le> ?r * ?R"
    using r(1) p by (rule mult_right_mono)
  have n1: "?S + 1 * ?R < 0"
    by (simp add: power_divide)
  have n2: "- (1 / 200000) < ?S + (- 1) * ?R"
    by (simp add: power_divide)
  show "cos ?x < 0" using c' up n1 by linarith
  show "- (1 / 200000) < cos ?x" using c' lo n2 by linarith
qed

lemma cos_31416: "cos (3.1416 :: real) = 2 * (cos (3927 / 2500))\<^sup>2 - 1"
proof -
  have "(3.1416 :: real) = 2 * (3927 / 2500)" by simp
  then show ?thesis by (simp only: cos_double_cos)
qed

lemma cos_31416_bounds: "- 1 < cos (3.1416 :: real)" "cos (3.1416 :: real) < - 1 + 1 / 10 ^ 10"
proof -
  let ?c = "cos (3927 / 2500 :: real)"
  have c: "?c < 0" "- (1 / 200000) < ?c" by (rule cos_15708_bounds)+
  have pos: "0 < ?c\<^sup>2" using c(1) by simp
  have "?c\<^sup>2 = (- ?c)\<^sup>2" by simp
  also have "\<dots> < (1 / 200000)\<^sup>2"
    using c by (intro power_strict_mono) simp_all
  also have "\<dots> = 1 / 40000000000" by (simp add: power_divide)
  finally have small: "?c\<^sup>2 < 1 / 40000000000" .
  show "- 1 < cos (3.1416 :: real)" unfolding cos_31416 using pos by simp
  show "cos (3.1416 :: real) < - 1 + 1 / 10 ^ 10" unfolding cos_31416 using small by simp
qed

subsection \<open>Aspect score\<close>

lemma aspect_south_value:
  "band_value (aspect be a) ''Aspect'' p = Some v \<Longrightarrow>
   band_value (aspect_south be a) ''Aspect_Score'' p = Some (aspect_expression v)"
proof -
  assume h: "band_value (aspect be a) ''Aspect'' p = Some v"
  have "length (aspect be a) \<le> 1" by (simp add: aspect_def length_rename)
  from single_band[OF this h] obtain g where g: "aspect be a = [(''Aspect'', g)]" "g p = v"
    by blast
  show ?thesis unfolding aspect_south_def g(1)
    by (simp add: map_bands_def rename_def band_value_def g(2))
qed

lemma aspect_expression_0: "aspect_expression 0 = cos 3.1416"
proof -
  have "aspect_expression 0 = cos (- 3.1416)" by (simp add: aspect_expression_def)
  then show ?thesis by (simp only: cos_minus)
qed

lemma aspect_expression_360: "aspect_expression 360 = cos 3.1416"
  by (simp add: aspect_expression_def)

text \<open>
  Claim C4, as the program has it. The program writes the constant 3.1416 where the claim
  has \<open>\<pi>\<close>, so the score at aspect 0 is not \<open>-1\<close>: it is the cosine of 3.1416, which is
  not the cosine of \<open>\<pi>\<close>.
\<close>

theorem aspect_south_score_counterexample:
  "aspect_expression 0 \<noteq> - 1 \<and>
   aspect_expression 0 \<noteq> cos ((0 - 180) * pi / 180) \<and>
   band_value (aspect_south (example_backend 1 1 0 0 0 0) (area 51.3890 35.6892))
     ''Aspect_Score'' 0 \<noteq> Some (- 1)"
proof -
  have 1: "aspect_expression 0 \<noteq> - 1"
    unfolding aspect_expression_0 using cos_31416_bounds(1) by simp
  have "cos ((0 - 180) * pi / 180) = - 1" by simp
  with 1 have 2: "aspect_expression 0 \<noteq> cos ((0 - 180) * pi / 180)" by simp
  have 3: "band_value (aspect_south (example_backend 1 1 0 0 0 0) (area 51.3890 35.6892))
     ''Aspect_Score'' 0 \<noteq> Some (- 1)"
    unfolding example_norms using 1 by (simp add: band_value_def)
  from 1 2 3 show ?thesis by (intro conjI)
qed

text \<open>
  Claim C4, amended. For every aspect value \<open>v\<close> in degrees the score is the cosine of
  \<open>(v - 180) * 3.1416 / 180\<close>, a value between \<open>-1\<close> and 1, at every pixel where the aspect
  layer has a value. At 180 degrees it is exactly 1. At 0 and at 360 degrees it is the
  cosine of 3.1416, which is greater than \<open>-1\<close> and less than \<open>-1\<close> plus one part in ten
  thousand million.
\<close>

theorem aspect_south_score:
  "(band_value (aspect be a) ''Aspect'' p = Some v \<longrightarrow>
      band_value (aspect_south be a) ''Aspect_Score'' p =
        Some (cos ((v - 180) * 3.1416 / 180))) \<and>
   aspect_expression v = cos ((v - 180) * 3.1416 / 180) \<and>
   - 1 \<le> aspect_expression v \<and> aspect_expression v \<le> 1 \<and>
   aspect_expression 180 = 1 \<and>
   aspect_expression 0 = cos 3.1416 \<and>
   aspect_expression 360 = cos 3.1416 \<and>
   - 1 < cos (3.1416 :: real) \<and> cos (3.1416 :: real) < - 1 + 1 / 10 ^ 10"
proof (intro conjI impI)
  assume "band_value (aspect be a) ''Aspect'' p = Some v"
  from aspect_south_value[OF this]
  show "band_value (aspect_south be a) ''Aspect_Score'' p = Some (cos ((v - 180) * 3.1416 / 180))"
    by (simp add: aspect_expression_def)
next
  show "aspect_expression v = cos ((v - 180) * 3.1416 / 180)"
    by (simp add: aspect_expression_def)
  show "- 1 \<le> aspect_expression v" "aspect_expression v \<le> 1"
    by (simp_all add: aspect_expression_def)
  show "aspect_expression 180 = 1" by (simp add: aspect_expression_def)
  show "aspect_expression 0 = cos 3.1416" by (rule aspect_expression_0)
  show "aspect_expression 360 = cos 3.1416" by (rule aspect_expression_360)
  show "- 1 < cos (3.1416 :: real)" by (rule cos_31416_bounds(1))
  show "cos (3.1416 :: real) < - 1 + 1 / 10 ^ 10" by (rule cos_31416_bounds(2))
qed

theorem aspect_south_score_witness:
  "band_value (aspect_south (example_backend 1 1 0 0 0 180) (area 51.3890 35.6892))
     ''Aspect_Score'' 0 = Some 1"
proof -
  let ?be = "example_backend 1 1 0 0 0 180"
  let ?a = "area 51.3890 35.6892"
  have h: "band_value (aspect ?be ?a) ''Aspect'' 0 = Some 180"
    unfolding example_values by simp
  have "band_value (aspect_south ?be ?a) ''Aspect_Score'' 0 =
        Some (cos ((180 - 180) * 3.1416 / 180))"
    using aspect_south_score[of ?be ?a 0 180] h by auto
  then show ?thesis by simp
qed

subsection \<open>Windows, reducers and conversions\<close>

lemma reduce_value:
  assumes "band_value (reduce r col) n p = Some v"
  shows "v = r (band_samples col n p)"
proof (cases col)
  case Nil
  with assms show ?thesis by (simp add: reduce_def band_value_def)
next
  case (Cons s rest)
  have "map_of (map (\<lambda>n. (n, \<lambda>p. r (band_samples col n p))) ns) n = Some b \<Longrightarrow>
        b = (\<lambda>p. r (band_samples col n p))" for ns b
    by (induction ns) (auto split: if_splits)
  with assms Cons show ?thesis
    by (auto simp: reduce_def band_value_def)
qed

lemma filter_conj: "filter P (filter Q xs) = filter (\<lambda>x. Q x \<and> P x) xs"
  by (induction xs) auto

text \<open>
  Claim C7. The optical collection is the catalogue's scenes that meet the area, start on
  or after 2023-07-01 and before 2023-08-31, and have a cloudy-pixel percentage below 10;
  the temperature collection is the scenes that meet the area in the same window, reduced
  to the daytime band, with no cloud filter; the rainfall collection is the scenes that
  meet the area from 2023-06-01 and before 2023-08-31, with no cloud filter. Every band
  value of the reduced optical image is the median of the scene values at that pixel, of
  the reduced temperature image their mean, of the reduced rainfall image their sum. When
  imagery is present, NDVI is the normalised difference of the median near-infrared and
  red bands, LST is the mean raw value times 0.02 minus 273.15, and Precip is the sum
  itself.
\<close>

theorem signal_fetch:
  "s2 be a =
     filter (\<lambda>s. footprint s \<inter> extent be a \<noteq> {} \<and>
                 (\<not> date_less (time_start s) (2023, 7, 1) \<and> date_less (time_start s) (2023, 8, 31)) \<and>
                 (case properties s ''CLOUDY_PIXEL_PERCENTAGE'' of Some c \<Rightarrow> c < 10 | None \<Rightarrow> False))
       (ImageCollection be ''COPERNICUS/S2_SR'') \<and>
   lstCol be a =
     map (\<lambda>s. s\<lparr>bands := filter (\<lambda>(n, b). n = ''LST_Day_1km'') (bands s)\<rparr>)
       (filter (\<lambda>s. footprint s \<inter> extent be a \<noteq> {} \<and>
                 (\<not> date_less (time_start s) (2023, 7, 1) \<and> date_less (time_start s) (2023, 8, 31)))
          (ImageCollection be ''MODIS/006/MOD11A2'')) \<and>
   chirpsCol be a =
     filter (\<lambda>s. footprint s \<inter> extent be a \<noteq> {} \<and>
                 (\<not> date_less (time_start s) (2023, 6, 1) \<and> date_less (time_start s) (2023, 8, 31)))
       (ImageCollection be ''UCSB-CHG/CHIRPS/DAILY'') \<and>
   (band_value (s2_median be a) n p = Some v \<longrightarrow> v = median_of (band_samples (s2 be a) n p)) \<and>
   (band_value (lstImage be a) n p = Some v \<longrightarrow> v = mean_of (band_samples (lstCol be a) n p)) \<and>
   (band_value (precipImage be a) n p = Some v \<longrightarrow>
      v = sum_list (band_samples (chirpsCol be a) n p)) \<and>
   (map_of (s2_median be a) ''B8'' = Some f8 \<and> map_of (s2_median be a) ''B4'' = Some f4 \<longrightarrow>
      ndvi be a = [(''NDVI'', \<lambda>q. (f8 q - f4 q) / (f8 q + f4 q))]) \<and>
   (lstImage be a = (m, f) # rest \<longrightarrow> lst be a = [(''LST'', \<lambda>q. f q * 0.02 - 273.15)]) \<and>
   (precipImage be a = (m, f) # rest \<longrightarrow> precip be a = [(''Precip'', f)])"
proof (intro conjI impI)
  show "s2 be a =
     filter (\<lambda>s. footprint s \<inter> extent be a \<noteq> {} \<and>
                 (\<not> date_less (time_start s) (2023, 7, 1) \<and> date_less (time_start s) (2023, 8, 31)) \<and>
                 (case properties s ''CLOUDY_PIXEL_PERCENTAGE'' of Some c \<Rightarrow> c < 10 | None \<Rightarrow> False))
       (ImageCollection be ''COPERNICUS/S2_SR'')"
    by (simp only: s2_def filter_lt_def filterDate_def filterBounds_def start_def end_date_def
        filter_conj conj_assoc)
  show "lstCol be a =
     map (\<lambda>s. s\<lparr>bands := filter (\<lambda>(n, b). n = ''LST_Day_1km'') (bands s)\<rparr>)
       (filter (\<lambda>s. footprint s \<inter> extent be a \<noteq> {} \<and>
                 (\<not> date_less (time_start s) (2023, 7, 1) \<and> date_less (time_start s) (2023, 8, 31)))
          (ImageCollection be ''MODIS/006/MOD11A2''))"
    by (simp only: lstCol_def select_col_def select_def filterDate_def filterBounds_def
        start_def end_date_def filter_conj)
  show "chirpsCol be a =
     filter (\<lambda>s. footprint s \<inter> extent be a \<noteq> {} \<and>
                 (\<not> date_less (time_start s) (2023, 6, 1) \<and> date_less (time_start s) (2023, 8, 31)))
       (ImageCollection be ''UCSB-CHG/CHIRPS/DAILY'')"
    by (simp only: chirpsCol_def filterDate_def filterBounds_def end_date_def filter_conj)
next
  assume "band_value (s2_median be a) n p = Some v"
  then show "v = median_of (band_samples (s2 be a) n p)"
    unfolding s2_median_def median_def by (rule reduce_value)
next
  assume "band_value (lstImage be a) n p = Some v"
  then show "v = mean_of (band_samples (lstCol be a) n p)"
    unfolding lstImage_def mean_def by (rule reduce_value)
next
  assume "band_value (precipImage be a) n p = Some v"
  then show "v = sum_list (band_samples (chirpsCol be a) n p)"
    unfolding precipImage_def sum_col_def by (rule reduce_value)
next
  assume h: "map_of (s2_median be a) ''B8'' = Some f8 \<and> map_of (s2_median be a) ''B4'' = Some f4"
  then have "s2_median be a \<noteq> []" by auto
  with h show "ndvi be a = [(''NDVI'', \<lambda>q. (f8 q - f4 q) / (f8 q + f4 q))]"
    by (simp add: ndvi_def Algorithms_If_def bandNames_def normalizedDifference_def rename_def)
next
  assume "lstImage be a = (m, f) # rest"
  then show "lst be a = [(''LST'', \<lambda>q. f q * 0.02 - 273.15)]"
    by (simp add: lst_def Algorithms_If_def bandNames_def rename_def multiply_def subtract_def
        map_bands_def)
next
  assume "precipImage be a = (m, f) # rest"
  then show "precip be a = [(''Precip'', f)]"
    by (simp add: precip_def Algorithms_If_def bandNames_def rename_def)
qed

theorem signal_fetch_witness:
  "median_of (band_samples (s2 (example_backend 0.6 0.2 15000 12 5 180) (area 51.3890 35.6892))
      ''B8'' 0) = 0.6 \<and>
   mean_of (band_samples (lstCol (example_backend 0.6 0.2 15000 12 5 180) (area 51.3890 35.6892))
      ''LST_Day_1km'' 0) = 15000 \<and>
   sum_list (band_samples (chirpsCol (example_backend 0.6 0.2 15000 12 5 180)
      (area 51.3890 35.6892)) ''precipitation'' 0) = 12 \<and>
   ndvi (example_backend 0.6 0.2 15000 12 5 180) (area 51.3890 35.6892) =
     [(''NDVI'', \<lambda>q. (0.6 - 0.2) / (0.6 + 0.2))] \<and>
   lst (example_backend 0.6 0.2 15000 12 5 180) (area 51.3890 35.6892) =
     [(''LST'', \<lambda>q. 15000 * 0.02 - 273.15)] \<and>
   precip (example_backend 0.6 0.2 15000 12 5 180) (area 51.3890 35.6892) =
     [(''Precip'', \<lambda>q. 12)]"
proof -
  let ?be = "example_backend 0.6 0.2 15000 12 5 180"
  let ?a = "area 51.3890 35.6892"
  have m: "map_of (s2_median ?be ?a) ''B8'' = Some (\<lambda>p. 0.6) \<and>
           map_of (s2_median ?be ?a) ''B4'' = Some (\<lambda>p. 0.2)"
    unfolding example_s2_median by simp
  have v1: "band_value (s2_median ?be ?a) ''B8'' 0 = Some 0.6"
    unfolding example_s2_median by (simp add: band_value_def)
  have v2: "band_value (lstImage ?be ?a) ''LST_Day_1km'' 0 = Some 15000"
    unfolding example_lstImage by (simp add: band_value_def)
  have v3: "band_value (precipImage ?be ?a) ''precipitation'' 0 = Some 12"
    unfolding example_precipImage by (simp add: band_value_def)
  note t = signal_fetch[where be = ?be and a = ?a and p = 0]
  have 1: "0.6 = median_of (band_samples (s2 ?be ?a) ''B8'' 0)"
    using t[where n = "''B8''" and v = "0.6"] v1 by blast
  have 2: "15000 = mean_of (band_samples (lstCol ?be ?a) ''LST_Day_1km'' 0)"
    using t[where n = "''LST_Day_1km''" and v = 15000] v2 by blast
  have 3: "12 = sum_list (band_samples (chirpsCol ?be ?a) ''precipitation'' 0)"
    using t[where n = "''precipitation''" and v = 12] v3 by blast
  have 4: "ndvi ?be ?a = [(''NDVI'', \<lambda>q. (0.6 - 0.2) / (0.6 + 0.2))]"
    using t[where ?f8.0 = "\<lambda>p. 0.6" and ?f4.0 = "\<lambda>p. 0.2"] m by blast
  have 5: "lst ?be ?a = [(''LST'', \<lambda>q. 15000 * 0.02 - 273.15)]"
    using t[where m = "''LST_Day_1km''" and f = "\<lambda>p. 15000" and rest = "[]"] example_lstImage[of "0.6" "0.2" 15000 12 5 180 ?a]
    by blast
  have 6: "precip ?be ?a = [(''Precip'', \<lambda>q. 12)]"
    using t[where m = "''precipitation''" and f = "\<lambda>p. 12" and rest = "[]"] example_precipImage[of "0.6" "0.2" 15000 12 5 180 ?a]
    by blast
  from 1 2 3 4 5 6 show ?thesis by simp
qed

end
